theory Spec2Isabelle
  imports Main "HOL-Library.Word" "HOL-Library.Sublist"
begin

unbundle bit_operations_syntax

section \<open>Lisp values\<close>

text \<open>
  A Lisp string is its \<open>SBYTES\<close> bytes of contents and the multibyte mark. The allocator
  always puts one zero byte after the contents, so the storage that \<open>SDATA\<close> points to is
  the contents followed by that byte.
\<close>

record lisp_string =
  contents :: string
  multibyte :: bool

datatype Lisp_Object = Qnil | Qt | Symbol string | Fixnum int | Str lisp_string

datatype error =
    Error string
  | Wrong_type_argument Lisp_Object
  | Args_out_of_range int int

definition NUL :: char where
  "NUL = CHR 0x00"

definition SBYTES :: "lisp_string \<Rightarrow> int" where
  "SBYTES s = int (length (contents s))"

definition SDATA :: "lisp_string \<Rightarrow> string" where
  "SDATA s = contents s @ [NUL]"

definition WCSDATA :: "lisp_string \<Rightarrow> string" where
  "WCSDATA s = SDATA s"

definition STRING_MULTIBYTE :: "lisp_string \<Rightarrow> bool" where
  "STRING_MULTIBYTE s = multibyte s"

definition STRINGP :: "Lisp_Object \<Rightarrow> bool" where
  "STRINGP v = (case v of Str _ \<Rightarrow> True | _ \<Rightarrow> False)"

definition make_number :: "int \<Rightarrow> Lisp_Object" where
  "make_number n = Fixnum n"

text \<open>\<open>XFASTINT\<close> is only ever applied to a value built by \<open>make_number\<close>.\<close>

definition XFASTINT :: "Lisp_Object \<Rightarrow> int" where
  "XFASTINT v = (case v of Fixnum n \<Rightarrow> n | _ \<Rightarrow> 0)"

text \<open>The two literals the file builds, \<open>"."\<close> and \<open>"/"\<close>, are ASCII: unibyte strings.\<close>

definition build_string :: "string \<Rightarrow> lisp_string" where
  "build_string s = \<lparr>contents = s, multibyte = False\<rparr>"

definition Qutf_16_le :: Lisp_Object where
  "Qutf_16_le = Symbol ''utf-16le''"

definition c_str :: "string \<Rightarrow> string" where
  "c_str bs = takeWhile (\<lambda>c. c \<noteq> NUL) bs"

definition memcpy :: "string \<Rightarrow> string \<Rightarrow> nat \<Rightarrow> string" where
  "memcpy dst src n = take n src @ drop n dst"

section \<open>The host application\<close>

text \<open>
  The Lisp primitives and coding machinery the file calls but does not define are
  parameters: any functions of these types. \<open>uninit n\<close> is whatever the allocator leaves
  in a fresh block of \<open>n\<close> bytes.
\<close>

record host =
  Fexpand_file_name :: "Lisp_Object \<Rightarrow> Lisp_Object \<Rightarrow> Lisp_Object"
  Funhandled_file_name_directory :: "Lisp_Object \<Rightarrow> Lisp_Object"
  ENCODE_FILE :: "lisp_string \<Rightarrow> lisp_string"
  DECODE_FILE :: "lisp_string \<Rightarrow> lisp_string"
  code_convert_string_norecord :: "lisp_string \<Rightarrow> Lisp_Object \<Rightarrow> bool \<Rightarrow> lisp_string"
  uninit :: "nat \<Rightarrow> string"

definition make_uninit_string :: "host \<Rightarrow> nat \<Rightarrow> lisp_string" where
  "make_uninit_string h n =
     \<lparr>contents = take n (uninit h n @ replicate n NUL), multibyte = False\<rparr>"

text \<open>
  Modelled from the spec: \<open>Fsubstring\<close> is not in the file. On a unibyte string characters
  are bytes; a negative index counts from the end; the spec has the call "drop the final
  byte".
\<close>

definition Fsubstring :: "lisp_string \<Rightarrow> int \<Rightarrow> int \<Rightarrow> error + lisp_string" where
  "Fsubstring s from to =
     (let len = int (length (contents s));
          f = (if from < 0 then from + len else from);
          t = (if to < 0 then to + len else to)
      in if 0 \<le> f \<and> f \<le> t \<and> t \<le> len
         then Inr (s\<lparr>contents := take (nat (t - f)) (drop (nat f) (contents s))\<rparr>)
         else Inl (Args_out_of_range from to))"

section \<open>The process and the operating system\<close>

datatype event =
    EvOpen int
  | EvChdir string int
  | EvFchdir int int
  | EvClose int int
  | EvConvPath "32 word" string nat int string

record world =
  cwd :: string
  fdtab :: "(int \<times> string) list"
  errno :: string
  specpdl :: "Lisp_Object list"
  trace :: "event list"

text \<open>
  What the operating system decides: whether a call fails (and the text \<open>strerror\<close> then
  gives for \<open>errno\<close>), the directory a successful \<open>chdir\<close> lands in, and everything the
  path-conversion facility does: its return value, the bytes it writes to the destination
  and the \<open>errno\<close> text it leaves.
\<close>

record os =
  open_err :: "world \<Rightarrow> string option"
  chdir_res :: "world \<Rightarrow> string \<Rightarrow> string + string"
  fchdir_err :: "world \<Rightarrow> int \<Rightarrow> string option"
  close_err :: "world \<Rightarrow> int \<Rightarrow> string option"
  conv_path :: "world \<Rightarrow> 32 word \<Rightarrow> string \<Rightarrow> nat \<Rightarrow> int \<times> string \<times> string"

definition lowest_free :: "int list \<Rightarrow> int" where
  "lowest_free used =
     (case find (\<lambda>n. int n \<notin> set used) [0..<Suc (length used)] of
        Some n \<Rightarrow> int n
      | None \<Rightarrow> int (length used))"

definition log_event :: "event \<Rightarrow> world \<Rightarrow> world" where
  "log_event ev w = w\<lparr>trace := trace w @ [ev]\<rparr>"

text \<open>\<open>open (".", O_RDONLY | O_DIRECTORY)\<close>: a new descriptor for the current directory.\<close>

definition sys_open :: "os \<Rightarrow> world \<Rightarrow> int \<times> world" where
  "sys_open os w =
     (case open_err os w of
        Some e \<Rightarrow> (- 1, log_event (EvOpen (- 1)) (w\<lparr>errno := e\<rparr>))
      | None \<Rightarrow>
          (let fd = lowest_free (map fst (fdtab w))
           in (fd, log_event (EvOpen fd) (w\<lparr>fdtab := (fd, cwd w) # fdtab w\<rparr>))))"

definition sys_chdir :: "os \<Rightarrow> string \<Rightarrow> world \<Rightarrow> int \<times> world" where
  "sys_chdir os path w =
     (case chdir_res os w path of
        Inl e \<Rightarrow> (- 1, log_event (EvChdir path (- 1)) (w\<lparr>errno := e\<rparr>))
      | Inr d \<Rightarrow> (0, log_event (EvChdir path 0) (w\<lparr>cwd := d\<rparr>)))"

definition sys_fchdir :: "os \<Rightarrow> int \<Rightarrow> world \<Rightarrow> int \<times> world" where
  "sys_fchdir os fd w =
     (case fchdir_err os w fd of
        Some e \<Rightarrow> (- 1, log_event (EvFchdir fd (- 1)) (w\<lparr>errno := e\<rparr>))
      | None \<Rightarrow>
          (case map_of (fdtab w) fd of
             None \<Rightarrow> (- 1, log_event (EvFchdir fd (- 1)) (w\<lparr>errno := ''Bad file descriptor''\<rparr>))
           | Some d \<Rightarrow> (0, log_event (EvFchdir fd 0) (w\<lparr>cwd := d\<rparr>))))"

text \<open>
  \<open>close\<close> on this platform releases the descriptor whatever it returns.
\<close>

definition sys_close :: "os \<Rightarrow> int \<Rightarrow> world \<Rightarrow> int \<times> world" where
  "sys_close os fd w =
     (let w' = w\<lparr>fdtab := filter (\<lambda>p. fst p \<noteq> fd) (fdtab w)\<rparr>
      in case close_err os w fd of
           Some e \<Rightarrow> (- 1, log_event (EvClose fd (- 1)) (w'\<lparr>errno := e\<rparr>))
         | None \<Rightarrow>
             (if fd \<in> fst ` set (fdtab w) then (0, log_event (EvClose fd 0) w')
              else (- 1, log_event (EvClose fd (- 1)) (w'\<lparr>errno := ''Bad file descriptor''\<rparr>))))"

text \<open>
  \<open>cygwin_conv_path (what, from, to, size)\<close>: \<open>from\<close> is the storage the source pointer
  reaches, \<open>to\<close> the destination storage (\<open>[]\<close> for \<open>NULL\<close>). The facility writes at most
  \<open>size\<close> bytes at the start of the destination.
\<close>

definition fill_buffer :: "nat \<Rightarrow> string \<Rightarrow> string \<Rightarrow> string" where
  "fill_buffer sz written buf = (let wr = take sz written in wr @ drop (length wr) buf)"

definition cygwin_conv_path ::
  "os \<Rightarrow> 32 word \<Rightarrow> string \<Rightarrow> string \<Rightarrow> nat \<Rightarrow> world \<Rightarrow> int \<times> string \<times> world" where
  "cygwin_conv_path os what from to sz w =
     (case conv_path os w what from sz of
        (rc, written, e) \<Rightarrow>
          (rc, fill_buffer sz written to,
           log_event (EvConvPath what from sz rc written) (w\<lparr>errno := e\<rparr>)))"

text \<open>The conversion flags of \<open><sys/cygwin.h>\<close>, which the file includes.\<close>

definition CCP_POSIX_TO_WIN_W :: "32 word" where
  "CCP_POSIX_TO_WIN_W = 1"

definition CCP_WIN_W_TO_POSIX :: "32 word" where
  "CCP_WIN_W_TO_POSIX = 3"

definition CCP_RELATIVE :: "32 word" where
  "CCP_RELATIVE = 0x100"

section \<open>The unwind stack\<close>

definition SPECPDL_INDEX :: "world \<Rightarrow> nat" where
  "SPECPDL_INDEX w = length (specpdl w)"

definition record_unwind_protect :: "Lisp_Object \<Rightarrow> world \<Rightarrow> world" where
  "record_unwind_protect arg w = w\<lparr>specpdl := arg # specpdl w\<rparr>"

definition fchdir_unwind :: "os \<Rightarrow> Lisp_Object \<Rightarrow> world \<Rightarrow> Lisp_Object \<times> world" where
  "fchdir_unwind os dir_fd w =
     (let w1 = snd (sys_fchdir os (XFASTINT dir_fd) w);
          w2 = snd (sys_close os (XFASTINT dir_fd) w1)
      in (Qnil, w2))"

text \<open>
  Modelled from the spec: \<open>unbind_to\<close> is not in the file. It pops the entries above
  \<open>count\<close>, innermost first, and runs the cleanup each one registered; the only cleanup
  this file registers is \<open>fchdir_unwind\<close>.
\<close>

fun unbind_n :: "os \<Rightarrow> nat \<Rightarrow> world \<Rightarrow> world" where
  "unbind_n os 0 w = w"
| "unbind_n os (Suc n) w =
     (case specpdl w of
        [] \<Rightarrow> w
      | arg # rest \<Rightarrow> unbind_n os n (snd (fchdir_unwind os arg (w\<lparr>specpdl := rest\<rparr>))))"

definition unbind_to :: "os \<Rightarrow> nat \<Rightarrow> world \<Rightarrow> world" where
  "unbind_to os count w = unbind_n os (length (specpdl w) - count) w"

text \<open>
  Modelled from the spec: \<open>error\<close> is not in the file. It never returns: the signal
  leaves the function, and the cleanups registered since \<open>count\<close> run before anything
  else does ("on exit, normal or error"). In the model an error travels as \<open>Inl\<close> to the
  frame that took \<open>count\<close>, which unwinds.
\<close>

definition signal :: "os \<Rightarrow> nat \<Rightarrow> error \<Rightarrow> world \<Rightarrow> (error + 'a) \<times> world" where
  "signal os count e w = (Inl e, unbind_to os count w)"

section \<open>The file\<close>

definition chdir_to_default_directory :: "os \<Rightarrow> host \<Rightarrow> world \<Rightarrow> (error + unit) \<times> world" where
  "chdir_to_default_directory os h w =
     (case sys_open os w of
        (old_cwd_fd, w1) \<Rightarrow>
          if old_cwd_fd = - 1
          then (Inl (Error (''could not open current directory: '' @ errno w1)), w1)
          else
            (let w2 = record_unwind_protect (make_number old_cwd_fd) w1;
                 new_cwd = Funhandled_file_name_directory h
                             (Fexpand_file_name h (Str (build_string ''.'')) Qnil);
                 new_cwd' = (case new_cwd of Str s \<Rightarrow> s | _ \<Rightarrow> build_string ''/'')
             in case sys_chdir os (c_str (SDATA (ENCODE_FILE h new_cwd'))) w2 of
                  (rc, w3) \<Rightarrow>
                    if rc \<noteq> 0 then (Inl (Error (''could not chdir: '' @ errno w3)), w3)
                    else (Inr (), w3)))"

definition conv_filename_to_w32_unicode ::
  "os \<Rightarrow> host \<Rightarrow> lisp_string \<Rightarrow> int \<Rightarrow> world \<Rightarrow> (error + Lisp_Object) \<times> world" where
  "conv_filename_to_w32_unicode os h inp absolute_p w =
     (let count = SPECPDL_INDEX w
      in case chdir_to_default_directory os h w of
           (Inl e, w1) \<Rightarrow> signal os count e w1
         | (Inr _, w1) \<Rightarrow>
             (let flags = (if absolute_p = 0 then CCP_POSIX_TO_WIN_W OR CCP_RELATIVE
                           else CCP_POSIX_TO_WIN_W);
                  inp' = ENCODE_FILE h inp
              in case cygwin_conv_path os flags (SDATA inp') [] 0 w1 of
                   (converted_len, _, w2) \<Rightarrow>
                     if converted_len < 2
                     then signal os count (Error (''cygwin_conv_path: '' @ errno w2)) w2
                     else
                       (let converted = make_uninit_string h (nat (converted_len - 1))
                        in case cygwin_conv_path os flags (SDATA inp') (SDATA converted)
                                  (nat converted_len) w2 of
                             (rc, buf, w3) \<Rightarrow>
                               if rc \<noteq> 0
                               then signal os count (Error (''cygwin_conv_path: '' @ errno w3)) w3
                               else
                                 (Inr (Str (converted\<lparr>contents :=
                                              take (nat (converted_len - 1)) buf\<rparr>)),
                                  unbind_to os count w3))))"

definition conv_filename_from_w32_unicode ::
  "os \<Rightarrow> host \<Rightarrow> string \<Rightarrow> int \<Rightarrow> world \<Rightarrow> (error + Lisp_Object) \<times> world" where
  "conv_filename_from_w32_unicode os h inp absolute_p w =
     (let count = SPECPDL_INDEX w
      in case chdir_to_default_directory os h w of
           (Inl e, w1) \<Rightarrow> signal os count e w1
         | (Inr _, w1) \<Rightarrow>
             (let flags = (if absolute_p = 0 then CCP_WIN_W_TO_POSIX OR CCP_RELATIVE
                           else CCP_WIN_W_TO_POSIX)
              in case cygwin_conv_path os flags inp [] 0 w1 of
                   (converted_len, _, w2) \<Rightarrow>
                     if converted_len < 1
                     then signal os count (Error (''cygwin_conv_path: '' @ errno w2)) w2
                     else
                       (let converted = make_uninit_string h (nat (converted_len - 1))
                        in case cygwin_conv_path os flags inp (SDATA converted)
                                  (nat converted_len) w2 of
                             (rc, buf, w3) \<Rightarrow>
                               if rc \<noteq> 0
                               then signal os count (Error (''cygwin_conv_path: '' @ errno w3)) w3
                               else
                                 (Inr (Str (DECODE_FILE h
                                              (converted\<lparr>contents :=
                                                 take (nat (converted_len - 1)) buf\<rparr>))),
                                  unbind_to os count w3))))"

definition from_unicode :: "host \<Rightarrow> Lisp_Object \<Rightarrow> error + Lisp_Object" where
  "from_unicode h str =
     (case str of
        Str s \<Rightarrow>
          if \<not> STRING_MULTIBYTE s \<and> SBYTES s AND 1 \<noteq> 0
          then (case Fsubstring s 0 (- 1) of
                  Inl e \<Rightarrow> Inl e
                | Inr s' \<Rightarrow> Inr (Str (code_convert_string_norecord h s' Qutf_16_le False)))
          else Inr (Str (code_convert_string_norecord h s Qutf_16_le False))
      | _ \<Rightarrow> Inl (Wrong_type_argument str))"

definition to_unicode :: "host \<Rightarrow> lisp_string \<Rightarrow> string \<times> lisp_string" where
  "to_unicode h str =
     (let buf = code_convert_string_norecord h str Qutf_16_le True;
          n = nat (SBYTES buf);
          str' = make_uninit_string h (nat (SBYTES buf + 1));
          str'' = str'\<lparr>contents := (memcpy (contents str') (SDATA buf) n)[n := NUL]\<rparr>
      in (WCSDATA str'', str''))"

definition Fcygwin_convert_path_to_windows ::
  "os \<Rightarrow> host \<Rightarrow> lisp_string \<Rightarrow> Lisp_Object \<Rightarrow> world \<Rightarrow> (error + Lisp_Object) \<times> world" where
  "Fcygwin_convert_path_to_windows os h path absolute_p w =
     (case conv_filename_to_w32_unicode os h path (if absolute_p = Qnil then 0 else 1) w of
        (Inl e, w') \<Rightarrow> (Inl e, w')
      | (Inr v, w') \<Rightarrow> (from_unicode h v, w'))"

definition Fcygwin_convert_path_from_windows ::
  "os \<Rightarrow> host \<Rightarrow> lisp_string \<Rightarrow> Lisp_Object \<Rightarrow> world \<Rightarrow> (error + Lisp_Object) \<times> world" where
  "Fcygwin_convert_path_from_windows os h path absolute_p w =
     conv_filename_from_w32_unicode os h (fst (to_unicode h path))
       (if absolute_p = Qnil then 0 else 1) w"

section \<open>Observing a call\<close>

text \<open>The events a call appended to the trace, and the calls to the facility among them.\<close>

definition new_events :: "world \<Rightarrow> world \<Rightarrow> event list" where
  "new_events w w' = drop (length (trace w)) (trace w')"

fun is_conv :: "event \<Rightarrow> bool" where
  "is_conv (EvConvPath _ _ _ _ _) = True"
| "is_conv _ = False"

definition conv_calls :: "event list \<Rightarrow> event list" where
  "conv_calls evs = filter is_conv evs"

fun conv_flags :: "event list \<Rightarrow> 32 word list" where
  "conv_flags [] = []"
| "conv_flags (EvConvPath what _ _ _ _ # evs) = what # conv_flags evs"
| "conv_flags (_ # evs) = conv_flags evs"

text \<open>
  The saved working-directory handles that are outstanding after a sequence of events:
  opened and not yet closed.
\<close>

fun track :: "int list \<Rightarrow> event \<Rightarrow> int list" where
  "track held (EvOpen fd) = (if fd = - 1 then held else fd # held)"
| "track held (EvClose fd _) = removeAll fd held"
| "track held _ = held"

definition outstanding :: "event list \<Rightarrow> int list" where
  "outstanding evs = foldl track [] evs"

fun restore_failed :: "event \<Rightarrow> bool" where
  "restore_failed (EvFchdir _ rc) = (rc \<noteq> 0)"
| "restore_failed _ = False"

text \<open>
  What holds of the world after a call that took the guard: nothing of the call is left
  on the unwind stack; the descriptor table is as before, so the saved handle is closed;
  at no point of the call was more than one saved handle outstanding, and none is at the
  end; and the working directory is the one before the call, unless an \<open>fchdir\<close> of the
  cleanup failed.
\<close>

definition guard_released :: "world \<Rightarrow> world \<Rightarrow> bool" where
  "guard_released w w' \<longleftrightarrow>
     specpdl w' = specpdl w \<and>
     fdtab w' = fdtab w \<and>
     (\<forall>p \<in> set (prefixes (new_events w w')). length (outstanding p) \<le> 1) \<and>
     outstanding (new_events w w') = [] \<and>
     ((\<forall>ev \<in> set (new_events w w'). \<not> restore_failed ev) \<longrightarrow> cwd w' = cwd w)"

text \<open>Names for three expressions of the file, used to state what it passes on.\<close>

definition guard_dir :: "host \<Rightarrow> string" where
  "guard_dir h =
     c_str (SDATA (ENCODE_FILE h
       (case Funhandled_file_name_directory h
               (Fexpand_file_name h (Str (build_string ''.'')) Qnil) of
          Str s \<Rightarrow> s
        | _ \<Rightarrow> build_string ''/'')))"

definition to_flags :: "int \<Rightarrow> 32 word" where
  "to_flags absolute_p =
     (if absolute_p = 0 then CCP_POSIX_TO_WIN_W OR CCP_RELATIVE else CCP_POSIX_TO_WIN_W)"

definition from_flags :: "int \<Rightarrow> 32 word" where
  "from_flags absolute_p =
     (if absolute_p = 0 then CCP_WIN_W_TO_POSIX OR CCP_RELATIVE else CCP_WIN_W_TO_POSIX)"

section \<open>A small host and operating system to run the file on\<close>

definition ascii_to_utf16le :: "string \<Rightarrow> string" where
  "ascii_to_utf16le s = concat (map (\<lambda>c. [c, NUL]) s)"

fun utf16le_to_ascii :: "string \<Rightarrow> string" where
  "utf16le_to_ascii (a # b # rest) = a # utf16le_to_ascii rest"
| "utf16le_to_ascii _ = []"

fun wide_c_str :: "string \<Rightarrow> string" where
  "wide_c_str (a # b # rest) = (if a = NUL \<and> b = NUL then [] else a # b # wide_c_str rest)"
| "wide_c_str _ = []"

definition test_host :: "Lisp_Object \<Rightarrow> host" where
  "test_host dir =
     \<lparr>Fexpand_file_name = (\<lambda>name d. dir),
      Funhandled_file_name_directory = (\<lambda>d. d),
      ENCODE_FILE = (\<lambda>s. s),
      DECODE_FILE = (\<lambda>s. s),
      code_convert_string_norecord = (\<lambda>s coding encodep.
        if encodep then \<lparr>contents = ascii_to_utf16le (contents s), multibyte = False\<rparr>
        else \<lparr>contents = utf16le_to_ascii (contents s), multibyte = False\<rparr>),
      uninit = (\<lambda>n. replicate n (CHR ''#''))\<rparr>"

text \<open>
  A facility that follows the two-call protocol: asked with size 0 it returns the size
  the answer needs, terminator included; asked with room enough it writes the answer and
  returns 0. Its path syntax is a toy: slashes become backslashes and back.
\<close>

definition toy_conv_path :: "world \<Rightarrow> 32 word \<Rightarrow> string \<Rightarrow> nat \<Rightarrow> int \<times> string \<times> string" where
  "toy_conv_path w what from sz =
     (let out =
        (if what = CCP_POSIX_TO_WIN_W \<or> what = CCP_POSIX_TO_WIN_W OR CCP_RELATIVE
         then ascii_to_utf16le (map (\<lambda>c. if c = CHR ''/'' then CHR 0x5C else c) (c_str from))
                @ [NUL, NUL]
         else map (\<lambda>c. if c = CHR 0x5C then CHR ''/'' else c)
                (utf16le_to_ascii (wide_c_str from)) @ [NUL])
      in if sz = 0 then (int (length out), [], errno w)
         else if sz < length out then (- 1, [], ''No space left on device'')
         else (0, out, errno w))"

text \<open>
  The same facility in a process where the paths it is given only resolve in the
  directory \<open>D\<close>: called while the process is anywhere else, it fails.
\<close>

definition cwd_conv_path ::
  "string \<Rightarrow> world \<Rightarrow> 32 word \<Rightarrow> string \<Rightarrow> nat \<Rightarrow> int \<times> string \<times> string" where
  "cwd_conv_path D w what from sz =
     (if cwd w = D then toy_conv_path w what from sz
      else (- 1, [], ''No such file or directory''))"

definition test_os ::
  "string option \<Rightarrow> string option \<Rightarrow> string option \<Rightarrow> string option \<Rightarrow>
   (world \<Rightarrow> 32 word \<Rightarrow> string \<Rightarrow> nat \<Rightarrow> int \<times> string \<times> string) \<Rightarrow> os" where
  "test_os open_e chdir_e fchdir_e close_e facility =
     \<lparr>open_err = (\<lambda>w. open_e),
      chdir_res = (\<lambda>w path. case chdir_e of Some e \<Rightarrow> Inl e | None \<Rightarrow> Inr path),
      fchdir_err = (\<lambda>w fd. fchdir_e),
      close_err = (\<lambda>w fd. close_e),
      conv_path = facility\<rparr>"

definition test_world :: world where
  "test_world =
     \<lparr>cwd = ''/'', fdtab = [(0, ''/dev/tty''), (1, ''/dev/tty''), (2, ''/dev/tty'')],
      errno = ''Success'', specpdl = [], trace = []\<rparr>"

section \<open>How the primitives change the world\<close>

subsection \<open>Descriptors and buffers\<close>

lemma lowest_free_fresh: "lowest_free used \<notin> set used"
proof (cases "find (\<lambda>n. int n \<notin> set used) [0..<Suc (length used)]")
  case None
  then have all: "\<forall>n \<in> set [0..<Suc (length used)]. int n \<in> set used"
    unfolding find_None_iff by blast
  have "card (int ` {..<Suc (length used)}) = Suc (length used)"
    by (simp add: card_image)
  moreover have "int ` {..<Suc (length used)} \<subseteq> set used"
    using all by (auto simp: less_Suc_eq)
  then have "card (int ` {..<Suc (length used)}) \<le> card (set used)"
    by (intro card_mono) auto
  moreover have "card (set used) \<le> length used"
    by (rule card_length)
  ultimately show ?thesis by simp
next
  case (Some n)
  then have "int n \<notin> set used"
    by (metis (mono_tags, lifting) find_Some_iff)
  moreover have "lowest_free used = int n"
    unfolding lowest_free_def Some by simp
  ultimately show ?thesis by simp
qed

lemma length_make_uninit_string [simp]: "length (contents (make_uninit_string h n)) = n"
  by (simp add: make_uninit_string_def)

lemma multibyte_make_uninit_string [simp]: "multibyte (make_uninit_string h n) = False"
  by (simp add: make_uninit_string_def)

lemma memcpy_terminate:
  assumes "length dst = Suc (length src)"
  shows "(memcpy dst (src @ [z]) (length src))[length src := z'] = src @ [z']"
proof -
  have "drop (length src) dst \<noteq> []" using assms by simp
  then obtain x where "drop (length src) dst = [x]"
    using assms by (cases "drop (length src) dst") (auto dest: arg_cong[where f=length])
  then show ?thesis by (simp add: memcpy_def list_update_append)
qed

lemma contents_to_unicode:
  "contents (snd (to_unicode h path)) =
     contents (code_convert_string_norecord h path Qutf_16_le True) @ [NUL]"
  by (simp add: to_unicode_def Let_def SBYTES_def SDATA_def memcpy_terminate nat_add_distrib)

lemma nat_int_pred: "nat (int n - 1) = n - Suc 0"
  by arith

subsection \<open>The guard, case by case\<close>

lemma lowest_free_nonneg: "0 \<le> lowest_free used"
  by (simp add: lowest_free_def split: option.splits)

lemma guard_cases:
  assumes "chdir_to_default_directory os h w = (g, w1)"
  obtains
    (open_failed) e where
      "open_err os w = Some e"
      "g = Inl (Error (''could not open current directory: '' @ e))"
      "w1 = w\<lparr>errno := e, trace := trace w @ [EvOpen (- 1)]\<rparr>"
  | (chdir_failed) fd e where
      "open_err os w = None" "fd = lowest_free (map fst (fdtab w))"
      "g = Inl (Error (''could not chdir: '' @ e))"
      "w1 = w\<lparr>fdtab := (fd, cwd w) # fdtab w, errno := e,
               specpdl := make_number fd # specpdl w,
               trace := trace w @ [EvOpen fd, EvChdir (guard_dir h) (- 1)]\<rparr>"
      "chdir_res os (w\<lparr>fdtab := (fd, cwd w) # fdtab w,
                         trace := trace w @ [EvOpen fd],
                         specpdl := make_number fd # specpdl w\<rparr>) (guard_dir h) = Inl e"
  | (entered) fd d where
      "open_err os w = None" "fd = lowest_free (map fst (fdtab w))"
      "g = Inr ()"
      "w1 = w\<lparr>cwd := d, fdtab := (fd, cwd w) # fdtab w,
               specpdl := make_number fd # specpdl w,
               trace := trace w @ [EvOpen fd, EvChdir (guard_dir h) 0]\<rparr>"
      "chdir_res os (w\<lparr>fdtab := (fd, cwd w) # fdtab w,
                         trace := trace w @ [EvOpen fd],
                         specpdl := make_number fd # specpdl w\<rparr>) (guard_dir h) = Inr d"
proof (cases "open_err os w")
  case (Some e)
  with assms show ?thesis
    by (intro open_failed[of e])
       (auto simp: chdir_to_default_directory_def sys_open_def log_event_def)
next
  case None
  define fd where "fd = lowest_free (map fst (fdtab w))"
  have fd: "fd \<noteq> - 1" using lowest_free_nonneg[of "map fst (fdtab w)"] by (simp add: fd_def)
  define w2 where "w2 = record_unwind_protect (make_number fd)
     (log_event (EvOpen fd) (w\<lparr>fdtab := (fd, cwd w) # fdtab w\<rparr>))"
  have run: "chdir_to_default_directory os h w =
    (case sys_chdir os (guard_dir h) w2 of
       (rc, w3) \<Rightarrow> if rc \<noteq> 0 then (Inl (Error (''could not chdir: '' @ errno w3)), w3)
                   else (Inr (), w3))"
    using None fd
    by (simp add: chdir_to_default_directory_def sys_open_def Let_def fd_def w2_def guard_dir_def)
  show ?thesis
  proof (cases "chdir_res os w2 (guard_dir h)")
    case (Inl e)
    with assms run None show ?thesis
      by (intro chdir_failed[of fd e])
         (auto simp: sys_chdir_def w2_def record_unwind_protect_def log_event_def fd_def)
  next
    case (Inr d)
    with assms run None show ?thesis
      by (intro entered[of fd d])
         (auto simp: sys_chdir_def w2_def record_unwind_protect_def log_event_def fd_def)
  qed
qed

subsection \<open>The facility and the cleanup\<close>

lemma conv_path_frame:
  assumes "cygwin_conv_path os what src dst sz w = (rc, buf, w2)"
  obtains wr e where
    "conv_path os w what src sz = (rc, wr, e)"
    "buf = fill_buffer sz wr dst"
    "w2 = w\<lparr>errno := e, trace := trace w @ [EvConvPath what src sz rc wr]\<rparr>"
  using assms
  by (auto simp: cygwin_conv_path_def log_event_def split: prod.splits)

lemma sys_close_effect:
  obtains rc e where
    "sys_close os fd w =
       (rc, w\<lparr>fdtab := filter (\<lambda>p. fst p \<noteq> fd) (fdtab w), errno := e,
              trace := trace w @ [EvClose fd rc]\<rparr>)"
proof (cases "close_err os w fd")
  case (Some e)
  then show ?thesis
    by (intro that[of "- 1" e]) (simp add: sys_close_def log_event_def)
next
  case None
  show ?thesis
  proof (cases "fd \<in> fst ` set (fdtab w)")
    case True
    with None show ?thesis
      by (intro that[of 0 "errno w"]) (simp add: sys_close_def log_event_def)
  next
    case False
    with None show ?thesis
      by (intro that[of "- 1" "''Bad file descriptor''"]) (simp add: sys_close_def log_event_def)
  qed
qed

lemma sys_fchdir_effect:
  assumes "map_of (fdtab w) fd = Some d"
  obtains
    (restored) "sys_fchdir os fd w = (0, w\<lparr>cwd := d, trace := trace w @ [EvFchdir fd 0]\<rparr>)"
  | (failed) e where
      "sys_fchdir os fd w = (- 1, w\<lparr>errno := e, trace := trace w @ [EvFchdir fd (- 1)]\<rparr>)"
  using assms
  by (cases "fchdir_err os w fd") (auto simp: sys_fchdir_def log_event_def)

lemma unbind_to_top:
  "specpdl w = make_number fd # rest \<Longrightarrow>
   unbind_to os (length rest) w =
     snd (sys_close os fd (snd (sys_fchdir os fd (w\<lparr>specpdl := rest\<rparr>))))"
  by (simp add: unbind_to_def Suc_diff_le fchdir_unwind_def Let_def make_number_def XFASTINT_def)

lemma unwind_effect:
  assumes "specpdl w = make_number fd # rest" "map_of (fdtab w) fd = Some d"
  obtains rcf rcc w' where
    "unbind_to os (length rest) w = w'"
    "specpdl w' = rest"
    "fdtab w' = filter (\<lambda>p. fst p \<noteq> fd) (fdtab w)"
    "trace w' = trace w @ [EvFchdir fd rcf, EvClose fd rcc]"
    "rcf = 0 \<or> rcf = - 1"
    "rcf = 0 \<Longrightarrow> cwd w' = d"
    "rcf = - 1 \<Longrightarrow> cwd w' = cwd w"
proof -
  let ?w0 = "w\<lparr>specpdl := rest\<rparr>"
  have open0: "map_of (fdtab ?w0) fd = Some d" using assms(2) by simp
  from open0 show ?thesis
  proof (cases rule: sys_fchdir_effect[where os = os])
    case restored
    obtain rc e where
      "sys_close os fd (snd (sys_fchdir os fd ?w0)) =
         (rc, (snd (sys_fchdir os fd ?w0))\<lparr>fdtab := filter (\<lambda>p. fst p \<noteq> fd) (fdtab (snd (sys_fchdir os fd ?w0))),
               errno := e, trace := trace (snd (sys_fchdir os fd ?w0)) @ [EvClose fd rc]\<rparr>)"
      by (rule sys_close_effect)
    with restored assms(1) show ?thesis
      by (intro that[where w' = "unbind_to os (length rest) w" and rcf = 0 and rcc = rc])
         (simp_all add: unbind_to_top)
  next
    case (failed e0)
    obtain rc e where
      "sys_close os fd (snd (sys_fchdir os fd ?w0)) =
         (rc, (snd (sys_fchdir os fd ?w0))\<lparr>fdtab := filter (\<lambda>p. fst p \<noteq> fd) (fdtab (snd (sys_fchdir os fd ?w0))),
               errno := e, trace := trace (snd (sys_fchdir os fd ?w0)) @ [EvClose fd rc]\<rparr>)"
      by (rule sys_close_effect)
    with failed assms(1) show ?thesis
      by (intro that[where w' = "unbind_to os (length rest) w" and rcf = "- 1" and rcc = rc])
         (simp_all add: unbind_to_top)
  qed
qed

lemma unwind_after_guard:
  assumes "specpdl w2 = make_number fd # specpdl w" "fdtab w2 = (fd, cwd w) # fdtab w"
    and "fd = lowest_free (map fst (fdtab w))"
  shows "\<exists>rcf rcc.
    specpdl (unbind_to os (length (specpdl w)) w2) = specpdl w \<and>
    fdtab (unbind_to os (length (specpdl w)) w2) = fdtab w \<and>
    trace (unbind_to os (length (specpdl w)) w2) = trace w2 @ [EvFchdir fd rcf, EvClose fd rcc] \<and>
    (rcf = 0 \<or> rcf = - 1) \<and>
    (rcf = 0 \<longrightarrow> cwd (unbind_to os (length (specpdl w)) w2) = cwd w) \<and>
    (rcf = - 1 \<longrightarrow> cwd (unbind_to os (length (specpdl w)) w2) = cwd w2)"
proof -
  have fresh: "fd \<notin> fst ` set (fdtab w)"
    using lowest_free_fresh[of "map fst (fdtab w)"] assms(3) by simp
  then have keep: "filter (\<lambda>p. fst p \<noteq> fd) (fdtab w) = fdtab w"
    by (auto simp: filter_id_conv)
  have "map_of (fdtab w2) fd = Some (cwd w)" using assms(2) by simp
  with assms(1) show ?thesis
  proof (rule unwind_effect[where os = os])
    fix rcf rcc w'
    assume "unbind_to os (length (specpdl w)) w2 = w'" "specpdl w' = specpdl w"
      "fdtab w' = filter (\<lambda>p. fst p \<noteq> fd) (fdtab w2)"
      "trace w' = trace w2 @ [EvFchdir fd rcf, EvClose fd rcc]" "rcf = 0 \<or> rcf = - 1"
      "rcf = 0 \<Longrightarrow> cwd w' = cwd w" "rcf = - 1 \<Longrightarrow> cwd w' = cwd w2"
    then show ?thesis
      using keep assms(2) by (intro exI[of _ rcf] exI[of _ rcc]) simp
  qed
qed

subsection \<open>A conversion, case by case\<close>

text \<open>
  Every run of a conversion is one of five: the open failed, the chdir failed, the length
  query came back too small, the fill call failed, or the path was converted. Each case
  gives the result, the events of the run and what the cleanup left behind.
\<close>

lemma conv_to_cases:
  assumes run: "conv_filename_to_w32_unicode os h inp a w = (r, w')"
  obtains
    (open_failed) e where
      "open_err os w = Some e"
      "r = Inl (Error (''could not open current directory: '' @ e))"
      "w' = w\<lparr>errno := e, trace := trace w @ [EvOpen (- 1)]\<rparr>"
  | (chdir_failed) fd e rcf rcc where
      "open_err os w = None" "fd = lowest_free (map fst (fdtab w))"
      "r = Inl (Error (''could not chdir: '' @ e))"
      "trace w' = trace w @ [EvOpen fd, EvChdir (guard_dir h) (- 1),
          EvFchdir fd rcf, EvClose fd rcc]"
      "specpdl w' = specpdl w" "fdtab w' = fdtab w" "cwd w' = cwd w"
  | (query_failed) fd n wr e rcf rcc where
      "open_err os w = None" "fd = lowest_free (map fst (fdtab w))"
      "n < 2" "r = Inl (Error (''cygwin_conv_path: '' @ e))"
      "trace w' = trace w @ [EvOpen fd, EvChdir (guard_dir h) 0,
          EvConvPath (to_flags a) (SDATA (ENCODE_FILE h inp)) 0 n wr,
          EvFchdir fd rcf, EvClose fd rcc]"
      "specpdl w' = specpdl w" "fdtab w' = fdtab w" "rcf = 0 \<or> rcf = - 1"
      "rcf = 0 \<Longrightarrow> cwd w' = cwd w"
  | (fill_failed) fd n wr rc wr' e rcf rcc where
      "open_err os w = None" "fd = lowest_free (map fst (fdtab w))"
      "2 \<le> n" "rc \<noteq> 0" "r = Inl (Error (''cygwin_conv_path: '' @ e))"
      "trace w' = trace w @ [EvOpen fd, EvChdir (guard_dir h) 0,
          EvConvPath (to_flags a) (SDATA (ENCODE_FILE h inp)) 0 n wr,
          EvConvPath (to_flags a) (SDATA (ENCODE_FILE h inp)) (nat n) rc wr',
          EvFchdir fd rcf, EvClose fd rcc]"
      "specpdl w' = specpdl w" "fdtab w' = fdtab w" "rcf = 0 \<or> rcf = - 1"
      "rcf = 0 \<Longrightarrow> cwd w' = cwd w"
  | (converted) fd n wr wr' rcf rcc where
      "open_err os w = None" "fd = lowest_free (map fst (fdtab w))"
      "2 \<le> n"
      "r = Inr (Str \<lparr>contents = take (nat (n - 1))
                 (fill_buffer (nat n) wr' (SDATA (make_uninit_string h (nat (n - 1))))),
               multibyte = False\<rparr>)"
      "trace w' = trace w @ [EvOpen fd, EvChdir (guard_dir h) 0,
          EvConvPath (to_flags a) (SDATA (ENCODE_FILE h inp)) 0 n wr,
          EvConvPath (to_flags a) (SDATA (ENCODE_FILE h inp)) (nat n) 0 wr',
          EvFchdir fd rcf, EvClose fd rcc]"
      "specpdl w' = specpdl w" "fdtab w' = fdtab w" "rcf = 0 \<or> rcf = - 1"
      "rcf = 0 \<Longrightarrow> cwd w' = cwd w"
proof -
  let ?src = "SDATA (ENCODE_FILE h inp)"
  obtain g w1 where g: "chdir_to_default_directory os h w = (g, w1)"
    by fastforce
  from g show ?thesis
  proof (cases rule: guard_cases)
    case (open_failed e)
    with run g show ?thesis
      by (intro that(1)[of e])
         (auto simp: conv_filename_to_w32_unicode_def signal_def SPECPDL_INDEX_def unbind_to_def)
  next
    case (chdir_failed fd e)
    have "specpdl w1 = make_number fd # specpdl w" "fdtab w1 = (fd, cwd w) # fdtab w"
      using chdir_failed(4) by simp_all
    then obtain rcf rcc w'' where u: "unbind_to os (length (specpdl w)) w1 = w''"
        "specpdl w'' = specpdl w" "fdtab w'' = fdtab w"
        "trace w'' = trace w1 @ [EvFchdir fd rcf, EvClose fd rcc]"
        "rcf = 0 \<or> rcf = - 1" "rcf = 0 \<Longrightarrow> cwd w'' = cwd w" "rcf = - 1 \<Longrightarrow> cwd w'' = cwd w1"
        using unwind_after_guard[where os = os and ?w2.0 = w1 and w = w and fd = fd] chdir_failed(2) by blast
    have "cwd w1 = cwd w" using chdir_failed(4) by simp
    with u have "cwd w'' = cwd w" by auto
    moreover have "r = Inl (Error (''could not chdir: '' @ e))" "w' = w''"
      using run g chdir_failed(3) u(1)
      by (auto simp: conv_filename_to_w32_unicode_def signal_def SPECPDL_INDEX_def)
    ultimately show ?thesis
      using chdir_failed u by (intro that(2)[of fd e rcf rcc]) simp_all
  next
    case (entered fd d)
    obtain n b w2 where q: "cygwin_conv_path os (to_flags a) ?src [] 0 w1 = (n, b, w2)"
      using prod_cases3 by blast
    then obtain wr e where w2: "w2 = w1\<lparr>errno := e, trace := trace w1 @ [EvConvPath (to_flags a) ?src 0 n wr]\<rparr>"
      by (rule conv_path_frame) blast
    show ?thesis
    proof (cases "n < 2")
      case True
      have "specpdl w2 = make_number fd # specpdl w" "fdtab w2 = (fd, cwd w) # fdtab w"
        using entered(4) w2 by simp_all
      then obtain rcf rcc w'' where u: "unbind_to os (length (specpdl w)) w2 = w''"
        "specpdl w'' = specpdl w" "fdtab w'' = fdtab w"
        "trace w'' = trace w2 @ [EvFchdir fd rcf, EvClose fd rcc]"
        "rcf = 0 \<or> rcf = - 1" "rcf = 0 \<Longrightarrow> cwd w'' = cwd w" "rcf = - 1 \<Longrightarrow> cwd w'' = cwd w2"
        using unwind_after_guard[where os = os and ?w2.0 = w2 and w = w and fd = fd] entered(2) by blast
      have "r = Inl (Error (''cygwin_conv_path: '' @ errno w2))" "w' = w''"
        using run g entered(3) q True u(1)
        by (auto simp: conv_filename_to_w32_unicode_def signal_def SPECPDL_INDEX_def to_flags_def)
      then show ?thesis
        using True entered w2 u by (intro that(3)[of fd n "errno w2" wr rcf rcc]) simp_all
    next
      case False
      let ?conv = "make_uninit_string h (nat (n - 1))"
      obtain rc buf w3 where f: "cygwin_conv_path os (to_flags a) ?src (SDATA ?conv) (nat n) w2 = (rc, buf, w3)"
        using prod_cases3 by blast
      then obtain wr' e' where w3: "buf = fill_buffer (nat n) wr' (SDATA ?conv)"
        "w3 = w2\<lparr>errno := e', trace := trace w2 @ [EvConvPath (to_flags a) ?src (nat n) rc wr']\<rparr>"
        by (rule conv_path_frame) blast
      have "specpdl w3 = make_number fd # specpdl w" "fdtab w3 = (fd, cwd w) # fdtab w"
        using entered(4) w2 w3 by simp_all
      then obtain rcf rcc w'' where u: "unbind_to os (length (specpdl w)) w3 = w''"
        "specpdl w'' = specpdl w" "fdtab w'' = fdtab w"
        "trace w'' = trace w3 @ [EvFchdir fd rcf, EvClose fd rcc]"
        "rcf = 0 \<or> rcf = - 1" "rcf = 0 \<Longrightarrow> cwd w'' = cwd w" "rcf = - 1 \<Longrightarrow> cwd w'' = cwd w3"
        using unwind_after_guard[where os = os and ?w2.0 = w3 and w = w and fd = fd] entered(2) by blast
      show ?thesis
      proof (cases "rc = 0")
        case True
        have "r = Inr (Str (?conv\<lparr>contents := take (nat (n - 1)) buf\<rparr>))" "w' = w''"
          using run g entered(3) q f False True u(1)
          by (auto simp: conv_filename_to_w32_unicode_def signal_def SPECPDL_INDEX_def to_flags_def Let_def)
        then show ?thesis
          using False True entered w2 w3 u
          by (intro that(5)[of fd n wr' wr rcf rcc]) (simp_all add: make_uninit_string_def)
      next
        case nz: False
        have "r = Inl (Error (''cygwin_conv_path: '' @ errno w3))" "w' = w''"
          using run g entered(3) q f False nz u(1)
          by (auto simp: conv_filename_to_w32_unicode_def signal_def SPECPDL_INDEX_def to_flags_def Let_def)
        then show ?thesis
          using False nz entered w2 w3 u
          by (intro that(4)[of fd n rc "errno w3" wr wr' rcf rcc]) simp_all
      qed
    qed
  qed
qed

lemma conv_from_cases:
  assumes run: "conv_filename_from_w32_unicode os h inp a w = (r, w')"
  obtains
    (open_failed) e where
      "open_err os w = Some e"
      "r = Inl (Error (''could not open current directory: '' @ e))"
      "w' = w\<lparr>errno := e, trace := trace w @ [EvOpen (- 1)]\<rparr>"
  | (chdir_failed) fd e rcf rcc where
      "open_err os w = None" "fd = lowest_free (map fst (fdtab w))"
      "r = Inl (Error (''could not chdir: '' @ e))"
      "trace w' = trace w @ [EvOpen fd, EvChdir (guard_dir h) (- 1),
          EvFchdir fd rcf, EvClose fd rcc]"
      "specpdl w' = specpdl w" "fdtab w' = fdtab w" "cwd w' = cwd w"
  | (query_failed) fd n wr e rcf rcc where
      "open_err os w = None" "fd = lowest_free (map fst (fdtab w))"
      "n < 1" "r = Inl (Error (''cygwin_conv_path: '' @ e))"
      "trace w' = trace w @ [EvOpen fd, EvChdir (guard_dir h) 0,
          EvConvPath (from_flags a) inp 0 n wr,
          EvFchdir fd rcf, EvClose fd rcc]"
      "specpdl w' = specpdl w" "fdtab w' = fdtab w" "rcf = 0 \<or> rcf = - 1"
      "rcf = 0 \<Longrightarrow> cwd w' = cwd w"
  | (fill_failed) fd n wr rc wr' e rcf rcc where
      "open_err os w = None" "fd = lowest_free (map fst (fdtab w))"
      "1 \<le> n" "rc \<noteq> 0" "r = Inl (Error (''cygwin_conv_path: '' @ e))"
      "trace w' = trace w @ [EvOpen fd, EvChdir (guard_dir h) 0,
          EvConvPath (from_flags a) inp 0 n wr,
          EvConvPath (from_flags a) inp (nat n) rc wr',
          EvFchdir fd rcf, EvClose fd rcc]"
      "specpdl w' = specpdl w" "fdtab w' = fdtab w" "rcf = 0 \<or> rcf = - 1"
      "rcf = 0 \<Longrightarrow> cwd w' = cwd w"
  | (converted) fd n wr wr' rcf rcc where
      "open_err os w = None" "fd = lowest_free (map fst (fdtab w))"
      "1 \<le> n"
      "r = Inr (Str (DECODE_FILE h \<lparr>contents = take (nat (n - 1))
                 (fill_buffer (nat n) wr' (SDATA (make_uninit_string h (nat (n - 1))))),
               multibyte = False\<rparr>))"
      "trace w' = trace w @ [EvOpen fd, EvChdir (guard_dir h) 0,
          EvConvPath (from_flags a) inp 0 n wr,
          EvConvPath (from_flags a) inp (nat n) 0 wr',
          EvFchdir fd rcf, EvClose fd rcc]"
      "specpdl w' = specpdl w" "fdtab w' = fdtab w" "rcf = 0 \<or> rcf = - 1"
      "rcf = 0 \<Longrightarrow> cwd w' = cwd w"
proof -
  obtain g w1 where g: "chdir_to_default_directory os h w = (g, w1)"
    by fastforce
  from g show ?thesis
  proof (cases rule: guard_cases)
    case (open_failed e)
    with run g show ?thesis
      by (intro that(1)[of e])
         (auto simp: conv_filename_from_w32_unicode_def signal_def SPECPDL_INDEX_def unbind_to_def)
  next
    case (chdir_failed fd e)
    have "specpdl w1 = make_number fd # specpdl w" "fdtab w1 = (fd, cwd w) # fdtab w"
      using chdir_failed(4) by simp_all
    then obtain rcf rcc w'' where u: "unbind_to os (length (specpdl w)) w1 = w''"
        "specpdl w'' = specpdl w" "fdtab w'' = fdtab w"
        "trace w'' = trace w1 @ [EvFchdir fd rcf, EvClose fd rcc]"
        "rcf = 0 \<or> rcf = - 1" "rcf = 0 \<Longrightarrow> cwd w'' = cwd w" "rcf = - 1 \<Longrightarrow> cwd w'' = cwd w1"
        using unwind_after_guard[where os = os and ?w2.0 = w1 and w = w and fd = fd] chdir_failed(2) by blast
    have "cwd w1 = cwd w" using chdir_failed(4) by simp
    with u have "cwd w'' = cwd w" by auto
    moreover have "r = Inl (Error (''could not chdir: '' @ e))" "w' = w''"
      using run g chdir_failed(3) u(1)
      by (auto simp: conv_filename_from_w32_unicode_def signal_def SPECPDL_INDEX_def)
    ultimately show ?thesis
      using chdir_failed u by (intro that(2)[of fd e rcf rcc]) simp_all
  next
    case (entered fd d)
    obtain n b w2 where q: "cygwin_conv_path os (from_flags a) inp [] 0 w1 = (n, b, w2)"
      using prod_cases3 by blast
    then obtain wr e where w2: "w2 = w1\<lparr>errno := e, trace := trace w1 @ [EvConvPath (from_flags a) inp 0 n wr]\<rparr>"
      by (rule conv_path_frame) blast
    show ?thesis
    proof (cases "n < 1")
      case True
      have "specpdl w2 = make_number fd # specpdl w" "fdtab w2 = (fd, cwd w) # fdtab w"
        using entered(4) w2 by simp_all
      then obtain rcf rcc w'' where u: "unbind_to os (length (specpdl w)) w2 = w''"
        "specpdl w'' = specpdl w" "fdtab w'' = fdtab w"
        "trace w'' = trace w2 @ [EvFchdir fd rcf, EvClose fd rcc]"
        "rcf = 0 \<or> rcf = - 1" "rcf = 0 \<Longrightarrow> cwd w'' = cwd w" "rcf = - 1 \<Longrightarrow> cwd w'' = cwd w2"
        using unwind_after_guard[where os = os and ?w2.0 = w2 and w = w and fd = fd] entered(2) by blast
      have "r = Inl (Error (''cygwin_conv_path: '' @ errno w2))" "w' = w''"
        using run g entered(3) q True u(1)
        by (auto simp: conv_filename_from_w32_unicode_def signal_def SPECPDL_INDEX_def from_flags_def)
      then show ?thesis
        using True entered w2 u by (intro that(3)[of fd n "errno w2" wr rcf rcc]) simp_all
    next
      case False
      let ?conv = "make_uninit_string h (nat (n - 1))"
      obtain rc buf w3 where f: "cygwin_conv_path os (from_flags a) inp (SDATA ?conv) (nat n) w2 = (rc, buf, w3)"
        using prod_cases3 by blast
      then obtain wr' e' where w3: "buf = fill_buffer (nat n) wr' (SDATA ?conv)"
        "w3 = w2\<lparr>errno := e', trace := trace w2 @ [EvConvPath (from_flags a) inp (nat n) rc wr']\<rparr>"
        by (rule conv_path_frame) blast
      have "specpdl w3 = make_number fd # specpdl w" "fdtab w3 = (fd, cwd w) # fdtab w"
        using entered(4) w2 w3 by simp_all
      then obtain rcf rcc w'' where u: "unbind_to os (length (specpdl w)) w3 = w''"
        "specpdl w'' = specpdl w" "fdtab w'' = fdtab w"
        "trace w'' = trace w3 @ [EvFchdir fd rcf, EvClose fd rcc]"
        "rcf = 0 \<or> rcf = - 1" "rcf = 0 \<Longrightarrow> cwd w'' = cwd w" "rcf = - 1 \<Longrightarrow> cwd w'' = cwd w3"
        using unwind_after_guard[where os = os and ?w2.0 = w3 and w = w and fd = fd] entered(2) by blast
      show ?thesis
      proof (cases "rc = 0")
        case True
        have "r = Inr (Str (DECODE_FILE h (?conv\<lparr>contents := take (nat (n - 1)) buf\<rparr>)))" "w' = w''"
          using run g entered(3) q f False True u(1)
          by (auto simp: conv_filename_from_w32_unicode_def signal_def SPECPDL_INDEX_def from_flags_def Let_def)
        then show ?thesis
          using False True entered w2 w3 u
          by (intro that(5)[of fd n wr' wr rcf rcc]) (simp_all add: make_uninit_string_def)
      next
        case nz: False
        have "r = Inl (Error (''cygwin_conv_path: '' @ errno w3))" "w' = w''"
          using run g entered(3) q f False nz u(1)
          by (auto simp: conv_filename_from_w32_unicode_def signal_def SPECPDL_INDEX_def from_flags_def Let_def)
        then show ?thesis
          using False nz entered w2 w3 u
          by (intro that(4)[of fd n rc "errno w3" wr wr' rcf rcc]) simp_all
      qed
    qed
  qed
qed

subsection \<open>What the calls leave in the trace\<close>

lemma trace_sys_fchdir:
  "trace (snd (sys_fchdir os fd w)) = trace w @ [EvFchdir fd (fst (sys_fchdir os fd w))]"
  by (simp add: sys_fchdir_def log_event_def split: option.splits)

lemma trace_sys_close:
  "trace (snd (sys_close os fd w)) = trace w @ [EvClose fd (fst (sys_close os fd w))]"
  by (simp add: sys_close_def log_event_def Let_def split: option.splits)

lemma fdtab_sys_close:
  "fdtab (snd (sys_close os fd w)) = filter (\<lambda>p. fst p \<noteq> fd) (fdtab w)"
  by (simp add: sys_close_def log_event_def Let_def split: option.splits)

lemma guard_error_propagates:
  assumes "chdir_to_default_directory os h w = (Inl e, w1)"
  shows "fst (Fcygwin_convert_path_to_windows os h path a w) = Inl e"
    and "fst (Fcygwin_convert_path_from_windows os h path a w) = Inl e"
  using assms
  by (simp_all add: Fcygwin_convert_path_to_windows_def Fcygwin_convert_path_from_windows_def
        conv_filename_to_w32_unicode_def conv_filename_from_w32_unicode_def signal_def)

lemma new_events_append [simp]: "trace w' = trace w @ evs \<Longrightarrow> new_events w w' = evs"
  by (simp add: new_events_def)

lemma relative_bit:
  "(CCP_POSIX_TO_WIN_W OR CCP_RELATIVE) AND CCP_RELATIVE = CCP_RELATIVE"
  "CCP_POSIX_TO_WIN_W AND CCP_RELATIVE = 0"
  "(CCP_WIN_W_TO_POSIX OR CCP_RELATIVE) AND CCP_RELATIVE = CCP_RELATIVE"
  "CCP_WIN_W_TO_POSIX AND CCP_RELATIVE = 0"
  "CCP_RELATIVE \<noteq> 0"
  by (simp_all add: CCP_POSIX_TO_WIN_W_def CCP_WIN_W_TO_POSIX_def CCP_RELATIVE_def)

lemma snd_to_windows:
  "snd (Fcygwin_convert_path_to_windows os h path a w) =
   snd (conv_filename_to_w32_unicode os h path (if a = Qnil then 0 else 1) w)"
  by (simp add: Fcygwin_convert_path_to_windows_def split: prod.splits sum.splits)

lemma conv_to_flags:
  "set (conv_flags (new_events w (snd (conv_filename_to_w32_unicode os h inp a w)))) \<subseteq> {to_flags a}"
proof -
  obtain r w' where run: "conv_filename_to_w32_unicode os h inp a w = (r, w')"
    by fastforce
  then show ?thesis
    by (cases rule: conv_to_cases) (simp_all add: run new_events_def)
qed

lemma conv_from_flags:
  "set (conv_flags (new_events w (snd (conv_filename_from_w32_unicode os h inp a w)))) \<subseteq> {from_flags a}"
proof -
  obtain r w' where run: "conv_filename_from_w32_unicode os h inp a w = (r, w')"
    by fastforce
  then show ?thesis
    by (cases rule: conv_from_cases) (simp_all add: run new_events_def)
qed

lemma to_windows_unfold:
  "conv_filename_to_w32_unicode os h path (if absolute_p = Qnil then 0 else 1) w = (r, w') \<Longrightarrow>
   Fcygwin_convert_path_to_windows os h path absolute_p w =
     (case r of Inl e \<Rightarrow> Inl e | Inr v \<Rightarrow> from_unicode h v, w')"
  by (simp add: Fcygwin_convert_path_to_windows_def split: sum.splits)

lemma from_unicode_Str:
  "from_unicode h (Str s) =
     Inr (Str (code_convert_string_norecord h
                 (if \<not> multibyte s \<and> odd (length (contents s))
                  then s\<lparr>contents := butlast (contents s)\<rparr> else s)
                 Qutf_16_le False))"
  by (auto simp: from_unicode_def STRING_MULTIBYTE_def SBYTES_def Fsubstring_def Let_def
        and_one_eq butlast_conv_take nat_int_pred split: sum.splits)

lemma lowest_free_not_minus_one: "lowest_free used \<noteq> - 1"
  using lowest_free_nonneg[of used] by simp

lemma conv_to_released:
  "guard_released w (snd (conv_filename_to_w32_unicode os h inp a w))"
proof -
  obtain r w' where run: "conv_filename_to_w32_unicode os h inp a w = (r, w')"
    by fastforce
  then show ?thesis
    by (cases rule: conv_to_cases)
       (auto simp: run guard_released_def outstanding_def lowest_free_not_minus_one)
qed

lemma conv_from_released:
  "guard_released w (snd (conv_filename_from_w32_unicode os h inp a w))"
proof -
  obtain r w' where run: "conv_filename_from_w32_unicode os h inp a w = (r, w')"
    by fastforce
  then show ?thesis
    by (cases rule: conv_from_cases)
       (auto simp: run guard_released_def outstanding_def lowest_free_not_minus_one)
qed

subsection \<open>A run in which every call succeeds\<close>

lemma guard_enters:
  assumes opens: "\<forall>w. open_err os w = None"
    and chdirs: "\<forall>w. chdir_res os w (guard_dir h) = Inr D"
  shows "\<exists>w1. chdir_to_default_directory os h w = (Inr (), w1) \<and> cwd w1 = D"
proof -
  obtain g w1 where g: "chdir_to_default_directory os h w = (g, w1)"
    by fastforce
  from g show ?thesis
  proof (cases rule: guard_cases)
    case (open_failed e)
    with opens show ?thesis by simp
  next
    case (chdir_failed fd e)
    with chdirs show ?thesis by simp
  next
    case (entered fd d)
    from entered(5) chdirs have "d = D" by simp
    with entered(3,4) g show ?thesis by simp
  qed
qed

lemma filled_buffer:
  "length buf = length out \<Longrightarrow> out \<noteq> [] \<Longrightarrow>
   take (length out - 1) (fill_buffer (length out) out buf) = butlast out"
  by (simp add: fill_buffer_def butlast_conv_take)

lemma make_uninit_string_update:
  "(make_uninit_string h n)\<lparr>contents := c\<rparr> = \<lparr>contents = c, multibyte = False\<rparr>"
  by (simp add: make_uninit_string_def)

lemma conv_to_success:
  assumes opens: "\<forall>w. open_err os w = None"
    and chdirs: "\<forall>w. chdir_res os w (guard_dir h) = Inr D"
    and query: "\<forall>w. cwd w = D \<longrightarrow>
                  fst (conv_path os w (to_flags a) (SDATA (ENCODE_FILE h inp)) 0) =
                  int (length out)"
    and fill: "\<forall>w. cwd w = D \<longrightarrow>
                  (\<exists>e. conv_path os w (to_flags a) (SDATA (ENCODE_FILE h inp)) (length out) =
                  (0, out, e))"
    and long: "2 \<le> length out"
  shows "fst (conv_filename_to_w32_unicode os h inp a w) =
           Inr (Str \<lparr>contents = butlast out, multibyte = False\<rparr>)"
proof -
  let ?src = "SDATA (ENCODE_FILE h inp)"
  let ?conv = "make_uninit_string h (length out - Suc 0)"
  obtain w1 where g: "chdir_to_default_directory os h w = (Inr (), w1)" and c1: "cwd w1 = D"
    using guard_enters[OF opens chdirs] by blast
  obtain n b w2 where q: "cygwin_conv_path os (to_flags a) ?src [] 0 w1 = (n, b, w2)"
    using prod_cases3 by blast
  then obtain wr0 e0 where q0: "conv_path os w1 (to_flags a) ?src 0 = (n, wr0, e0)"
    and w2: "w2 = w1\<lparr>errno := e0, trace := trace w1 @ [EvConvPath (to_flags a) ?src 0 n wr0]\<rparr>"
    by (rule conv_path_frame) blast
  have n: "n = int (length out)"
    using query c1 q0 by (metis fst_conv)
  have c2: "cwd w2 = D"
    using w2 c1 by simp
  obtain rc buf w3 where
    f: "cygwin_conv_path os (to_flags a) ?src (SDATA ?conv) (length out) w2 = (rc, buf, w3)"
    using prod_cases3 by blast
  then obtain wr e where "conv_path os w2 (to_flags a) ?src (length out) = (rc, wr, e)"
    "buf = fill_buffer (length out) wr (SDATA ?conv)"
    by (rule conv_path_frame) blast
  with fill c2 have rc: "rc = 0" and buf: "buf = fill_buffer (length out) out (SDATA ?conv)"
    by (metis fst_conv snd_conv)+
  have len: "length (SDATA ?conv) = length out"
    using long by (simp add: SDATA_def)
  have nonempty: "out \<noteq> []" using long by auto
  with len have "take (length out - Suc 0) buf = butlast out"
    unfolding buf using filled_buffer[of "SDATA ?conv" out] by simp
  then show ?thesis
    using long nonempty
    by (simp add: conv_filename_to_w32_unicode_def g q f n rc to_flags_def[symmetric]
          nat_int_pred make_uninit_string_update Let_def)
qed

lemma conv_from_success:
  assumes opens: "\<forall>w. open_err os w = None"
    and chdirs: "\<forall>w. chdir_res os w (guard_dir h) = Inr D"
    and query: "\<forall>w. cwd w = D \<longrightarrow>
                  fst (conv_path os w (from_flags a) inp 0) =
                  int (length out)"
    and fill: "\<forall>w. cwd w = D \<longrightarrow>
                  (\<exists>e. conv_path os w (from_flags a) inp (length out) =
                  (0, out, e))"
    and long: "1 \<le> length out"
  shows "fst (conv_filename_from_w32_unicode os h inp a w) =
           Inr (Str (DECODE_FILE h \<lparr>contents = butlast out, multibyte = False\<rparr>))"
proof -
  let ?conv = "make_uninit_string h (length out - Suc 0)"
  obtain w1 where g: "chdir_to_default_directory os h w = (Inr (), w1)" and c1: "cwd w1 = D"
    using guard_enters[OF opens chdirs] by blast
  obtain n b w2 where q: "cygwin_conv_path os (from_flags a) inp [] 0 w1 = (n, b, w2)"
    using prod_cases3 by blast
  then obtain wr0 e0 where q0: "conv_path os w1 (from_flags a) inp 0 = (n, wr0, e0)"
    and w2: "w2 = w1\<lparr>errno := e0, trace := trace w1 @ [EvConvPath (from_flags a) inp 0 n wr0]\<rparr>"
    by (rule conv_path_frame) blast
  have n: "n = int (length out)"
    using query c1 q0 by (metis fst_conv)
  have c2: "cwd w2 = D"
    using w2 c1 by simp
  obtain rc buf w3 where
    f: "cygwin_conv_path os (from_flags a) inp (SDATA ?conv) (length out) w2 = (rc, buf, w3)"
    using prod_cases3 by blast
  then obtain wr e where "conv_path os w2 (from_flags a) inp (length out) = (rc, wr, e)"
    "buf = fill_buffer (length out) wr (SDATA ?conv)"
    by (rule conv_path_frame) blast
  with fill c2 have rc: "rc = 0" and buf: "buf = fill_buffer (length out) out (SDATA ?conv)"
    by (metis fst_conv snd_conv)+
  have len: "length (SDATA ?conv) = length out"
    using long by (simp add: SDATA_def)
  have nonempty: "out \<noteq> []" using long by auto
  with len have "take (length out - Suc 0) buf = butlast out"
    unfolding buf using filled_buffer[of "SDATA ?conv" out] by simp
  then show ?thesis
    using long nonempty
    by (simp add: conv_filename_from_w32_unicode_def g q f n rc from_flags_def[symmetric]
          nat_int_pred make_uninit_string_update Let_def)
qed

text \<open>Unfolding these evaluates a call on a concrete host and operating system.\<close>

lemmas run_defs =
  Fcygwin_convert_path_to_windows_def Fcygwin_convert_path_from_windows_def
  conv_filename_to_w32_unicode_def conv_filename_from_w32_unicode_def
  chdir_to_default_directory_def from_unicode_def to_unicode_def signal_def unbind_to_def
  fchdir_unwind_def record_unwind_protect_def SPECPDL_INDEX_def
  sys_open_def sys_chdir_def sys_fchdir_def sys_close_def cygwin_conv_path_def log_event_def
  fill_buffer_def lowest_free_def make_uninit_string_def Fsubstring_def memcpy_def c_str_def
  build_string_def make_number_def XFASTINT_def STRINGP_def STRING_MULTIBYTE_def SBYTES_def
  SDATA_def WCSDATA_def NUL_def Qutf_16_le_def
  CCP_POSIX_TO_WIN_W_def CCP_WIN_W_TO_POSIX_def CCP_RELATIVE_def
  test_os_def test_host_def test_world_def toy_conv_path_def cwd_conv_path_def
  ascii_to_utf16le_def
  new_events_def conv_calls_def outstanding_def guard_dir_def to_flags_def from_flags_def
  guard_released_def Let_def

section \<open>The cleanup handler\<close>

text \<open>
  C10. Every run of the cleanup handler \<open>fchdir_unwind\<close> calls \<open>fchdir\<close> and then \<open>close\<close>
  on the saved descriptor, whatever \<open>fchdir\<close> returned; it returns \<open>nil\<close> and raises
  nothing, whatever either call returned; and afterwards the descriptor is no longer
  open, so the cleanup path leaks no descriptor.
\<close>

theorem fchdir_unwind_always_closes:
  "fst (fchdir_unwind os (make_number fd) w) = Qnil \<and>
   new_events w (snd (fchdir_unwind os (make_number fd) w)) =
     [EvFchdir fd (fst (sys_fchdir os fd w)),
      EvClose fd (fst (sys_close os fd (snd (sys_fchdir os fd w))))] \<and>
   fd \<notin> fst ` set (fdtab (snd (fchdir_unwind os (make_number fd) w)))"
  by (auto simp: fchdir_unwind_def Let_def make_number_def XFASTINT_def new_events_def
        trace_sys_close trace_sys_fchdir fdtab_sys_close)

theorem fchdir_unwind_always_closes_witness:
  "fst (fchdir_unwind
          (test_os None None (Some ''Permission denied'') (Some ''Input/output error'')
             toy_conv_path)
          (make_number 3) (test_world\<lparr>fdtab := [(3, ''/'')]\<rparr>)) = Qnil \<and>
   new_events (test_world\<lparr>fdtab := [(3, ''/'')]\<rparr>)
     (snd (fchdir_unwind
             (test_os None None (Some ''Permission denied'') (Some ''Input/output error'')
                toy_conv_path)
             (make_number 3) (test_world\<lparr>fdtab := [(3, ''/'')]\<rparr>))) =
     [EvFchdir 3 (- 1), EvClose 3 (- 1)] \<and>
   fdtab (snd (fchdir_unwind
                 (test_os None None (Some ''Permission denied'') (Some ''Input/output error'')
                    toy_conv_path)
                 (make_number 3) (test_world\<lparr>fdtab := [(3, ''/'')]\<rparr>))) = []"
  using fchdir_unwind_always_closes
    [of "test_os None None (Some ''Permission denied'') (Some ''Input/output error'')
           toy_conv_path" 3 "test_world\<lparr>fdtab := [(3, ''/'')]\<rparr>"]
  by (simp add: run_defs)

section \<open>The wide form\<close>

text \<open>
  C4. For every host string \<open>path\<close>, the string \<open>to_unicode\<close> leaves in \<open>*buf\<close> is one
  byte longer than the UTF-16LE encoding of \<open>path\<close>: the encoding followed by one zero
  byte. With the zero byte that ends every Lisp string, the storage the returned pointer
  reaches ends in two zero bytes: the buffer is doubly null-terminated.
\<close>

theorem to_unicode_doubly_terminated:
  "SBYTES (snd (to_unicode h path)) =
     SBYTES (code_convert_string_norecord h path Qutf_16_le True) + 1 \<and>
   contents (snd (to_unicode h path)) =
     contents (code_convert_string_norecord h path Qutf_16_le True) @ [NUL] \<and>
   length (SDATA (snd (to_unicode h path))) =
     length (SDATA (code_convert_string_norecord h path Qutf_16_le True)) + 1 \<and>
   drop (length (SDATA (snd (to_unicode h path))) - 2) (SDATA (snd (to_unicode h path))) =
     [NUL, NUL] \<and>
   fst (to_unicode h path) = SDATA (snd (to_unicode h path))"
proof -
  have fst_snd: "fst (to_unicode h path) = SDATA (snd (to_unicode h path))"
    by (simp add: to_unicode_def Let_def WCSDATA_def)
  show ?thesis
    by (simp add: fst_snd SBYTES_def SDATA_def contents_to_unicode)
qed

theorem to_unicode_doubly_terminated_witness:
  "SBYTES (snd (to_unicode (test_host Qnil) (build_string ''ab''))) = 5 \<and>
   SDATA (snd (to_unicode (test_host Qnil) (build_string ''ab''))) =
     [CHR ''a'', CHR 0x00, CHR ''b'', CHR 0x00, CHR 0x00, CHR 0x00]"
  using to_unicode_doubly_terminated [of "test_host Qnil" "build_string ''ab''"]
  by (simp add: run_defs)

text \<open>
  C5. For every string given to \<open>from_unicode\<close>: when it is not marked multibyte and its
  byte length is odd, the result is the decoding of the string without its final byte;
  when it is marked multibyte or its byte length is even, the result is the decoding of
  all its bytes.
\<close>

theorem from_unicode_odd_trim:
  "(\<not> STRING_MULTIBYTE s \<and> odd (SBYTES s) \<longrightarrow>
      from_unicode h (Str s) =
        Inr (Str (code_convert_string_norecord h (s\<lparr>contents := butlast (contents s)\<rparr>)
                    Qutf_16_le False))) \<and>
   (STRING_MULTIBYTE s \<or> even (SBYTES s) \<longrightarrow>
      from_unicode h (Str s) = Inr (Str (code_convert_string_norecord h s Qutf_16_le False)))"
  by (auto simp: from_unicode_def STRING_MULTIBYTE_def SBYTES_def Fsubstring_def Let_def
        and_one_eq butlast_conv_take nat_int_pred split: sum.splits)

theorem from_unicode_odd_trim_witness:
  "from_unicode (test_host Qnil)
     (Str \<lparr>contents = [CHR ''a'', CHR 0x00, CHR ''b'', CHR 0x00, CHR 0x00], multibyte = False\<rparr>) =
     Inr (Str \<lparr>contents = ''ab'', multibyte = False\<rparr>) \<and>
   from_unicode (test_host Qnil)
     (Str \<lparr>contents = [CHR ''a'', CHR 0x00, CHR ''b'', CHR 0x00], multibyte = False\<rparr>) =
     Inr (Str \<lparr>contents = ''ab'', multibyte = False\<rparr>)"
  using
    from_unicode_odd_trim [of "\<lparr>contents = [CHR ''a'', CHR 0x00, CHR ''b'', CHR 0x00, CHR 0x00],
                                 multibyte = False\<rparr>" "test_host Qnil"]
    from_unicode_odd_trim [of "\<lparr>contents = [CHR ''a'', CHR 0x00, CHR ''b'', CHR 0x00],
                                 multibyte = False\<rparr>" "test_host Qnil"]
  by (simp add: STRING_MULTIBYTE_def SBYTES_def test_host_def Qutf_16_le_def)

section \<open>The working-directory guard\<close>

text \<open>
  C7. If opening the current directory fails at the start of the guard, the operation
  fails at once with the error \<open>could not open current directory:\<close> and the error text
  of the operating system, and nothing else happens: the world afterwards is the world
  before but for \<open>errno\<close> and the one failed \<open>open\<close> in the trace. So no cleanup is
  registered, no directory change is attempted and the facility is not called; the same
  holds of both entry points.
\<close>

theorem open_failure_stops_everything:
  assumes "open_err os w = Some e"
  shows
    "chdir_to_default_directory os h w =
       (Inl (Error (''could not open current directory: '' @ e)),
        w\<lparr>errno := e, trace := trace w @ [EvOpen (- 1)]\<rparr>) \<and>
     Fcygwin_convert_path_to_windows os h path absolute_p w =
       (Inl (Error (''could not open current directory: '' @ e)),
        w\<lparr>errno := e, trace := trace w @ [EvOpen (- 1)]\<rparr>) \<and>
     Fcygwin_convert_path_from_windows os h path absolute_p w =
       (Inl (Error (''could not open current directory: '' @ e)),
        w\<lparr>errno := e, trace := trace w @ [EvOpen (- 1)]\<rparr>)"
proof -
  have guard: "chdir_to_default_directory os h w =
       (Inl (Error (''could not open current directory: '' @ e)),
        w\<lparr>errno := e, trace := trace w @ [EvOpen (- 1)]\<rparr>)"
    using assms by (simp add: chdir_to_default_directory_def sys_open_def log_event_def)
  then show ?thesis
    by (simp add: Fcygwin_convert_path_to_windows_def Fcygwin_convert_path_from_windows_def
          conv_filename_to_w32_unicode_def conv_filename_from_w32_unicode_def signal_def
          SPECPDL_INDEX_def unbind_to_def)
qed

theorem open_failure_stops_everything_witness:
  "open_err (test_os (Some ''Too many open files'') None None None toy_conv_path) test_world =
     Some ''Too many open files'' \<and>
   Fcygwin_convert_path_to_windows
     (test_os (Some ''Too many open files'') None None None toy_conv_path)
     (test_host (Str (build_string ''/home/u/''))) (build_string ''a/b'') Qnil test_world =
     (Inl (Error ''could not open current directory: Too many open files''),
      test_world\<lparr>errno := ''Too many open files'', trace := [EvOpen (- 1)]\<rparr>) \<and>
   Fcygwin_convert_path_from_windows
     (test_os (Some ''Too many open files'') None None None toy_conv_path)
     (test_host (Str (build_string ''/home/u/''))) (build_string ''ab'') Qnil test_world =
     (Inl (Error ''could not open current directory: Too many open files''),
      test_world\<lparr>errno := ''Too many open files'', trace := [EvOpen (- 1)]\<rparr>)"
proof -
  have failing:
    "open_err (test_os (Some ''Too many open files'') None None None toy_conv_path) test_world =
       Some ''Too many open files''"
    by (simp add: test_os_def)
  show ?thesis
    using failing
      open_failure_stops_everything [OF failing, of "test_host (Str (build_string ''/home/u/''))"
        "build_string ''a/b''" Qnil]
      open_failure_stops_everything [OF failing, of "test_host (Str (build_string ''/home/u/''))"
        "build_string ''ab''" Qnil]
    by (simp add: test_world_def)
qed

text \<open>
  C8. After a successful \<open>open\<close>, the directory the guard changes into is the encoded
  name of the resolved default directory, and when the resolution did not yield a
  string it is the encoded name of the root path \<open>/\<close>. That \<open>chdir\<close> is the only one the
  guard attempts. If it fails, the guard, and with it either entry point, fails with the
  error \<open>could not chdir:\<close> and the error text of the operating system.
\<close>

theorem guard_chdir_target:
  assumes "open_err os w = None"
  shows
    "let fd = lowest_free (map fst (fdtab w));
         w2 = w\<lparr>fdtab := (fd, cwd w) # fdtab w, trace := trace w @ [EvOpen fd],
                specpdl := make_number fd # specpdl w\<rparr>;
         new_cwd = Funhandled_file_name_directory h
                     (Fexpand_file_name h (Str (build_string ''.'')) Qnil);
         dir = c_str (SDATA (ENCODE_FILE h
                 (case new_cwd of Str s \<Rightarrow> s | _ \<Rightarrow> build_string ''/'')))
     in (\<not> STRINGP new_cwd \<longrightarrow> dir = c_str (SDATA (ENCODE_FILE h (build_string ''/'')))) \<and>
        (\<exists>rc. new_events w (snd (chdir_to_default_directory os h w)) =
                [EvOpen fd, EvChdir dir rc]) \<and>
        (\<forall>e. chdir_res os w2 dir = Inl e \<longrightarrow>
           fst (chdir_to_default_directory os h w) = Inl (Error (''could not chdir: '' @ e)) \<and>
           fst (Fcygwin_convert_path_to_windows os h path absolute_p w) =
             Inl (Error (''could not chdir: '' @ e)) \<and>
           fst (Fcygwin_convert_path_from_windows os h path absolute_p w) =
             Inl (Error (''could not chdir: '' @ e))) \<and>
        (\<forall>d. chdir_res os w2 dir = Inr d \<longrightarrow>
           fst (chdir_to_default_directory os h w) = Inr () \<and>
           cwd (snd (chdir_to_default_directory os h w)) = d)"
proof -
  obtain g w1 where g: "chdir_to_default_directory os h w = (g, w1)"
    by fastforce
  have fallback:
    "\<not> STRINGP (Funhandled_file_name_directory h
                  (Fexpand_file_name h (Str (build_string ''.'')) Qnil)) \<Longrightarrow>
     guard_dir h = c_str (SDATA (ENCODE_FILE h (build_string ''/'')))"
    by (simp add: guard_dir_def STRINGP_def split: Lisp_Object.splits)
  from g show ?thesis
  proof (cases rule: guard_cases)
    case (open_failed e)
    with assms show ?thesis by simp
  next
    case (chdir_failed fd e)
    have "g = Inl (Error (''could not chdir: '' @ e))" by (rule chdir_failed(3))
    with g have err: "chdir_to_default_directory os h w = (Inl (Error (''could not chdir: '' @ e)), w1)"
      by simp
    show ?thesis
      using chdir_failed g fallback guard_error_propagates[OF err, of path absolute_p]
      by (simp add: Let_def new_events_def guard_dir_def[symmetric])
  next
    case (entered fd d)
    then show ?thesis
      using g fallback by (simp add: Let_def new_events_def guard_dir_def[symmetric])
  qed
qed

theorem guard_chdir_target_witness:
  "open_err (test_os None (Some ''No such file or directory'') None None toy_conv_path)
     test_world = None \<and>
   new_events test_world
     (snd (chdir_to_default_directory
             (test_os None (Some ''No such file or directory'') None None toy_conv_path)
             (test_host Qnil) test_world)) = [EvOpen 3, EvChdir ''/'' (- 1)] \<and>
   fst (Fcygwin_convert_path_to_windows
          (test_os None (Some ''No such file or directory'') None None toy_conv_path)
          (test_host Qnil) (build_string ''a/b'') Qnil test_world) =
     Inl (Error ''could not chdir: No such file or directory'')"
proof -
  have opened:
    "open_err (test_os None (Some ''No such file or directory'') None None toy_conv_path)
       test_world = None"
    by (simp add: test_os_def)
  show ?thesis
    using opened
      guard_chdir_target [OF opened, of "test_host Qnil" "build_string ''a/b''" Qnil]
    by (simp add: run_defs)
qed

section \<open>The entry points\<close>

text \<open>
  C9. For both entry points, every call to the facility carries the direction flag and,
  exactly when \<open>absolute-p\<close> is \<open>nil\<close> (as it is when omitted), the flag \<open>CCP_RELATIVE\<close>.
  Any value other than \<open>nil\<close>, not only \<open>t\<close>, asks for an absolute path: the call behaves
  as with \<open>t\<close>.
\<close>

theorem absolute_flag_iff_non_nil:
  "(\<forall>f \<in> set (conv_flags (new_events w
            (snd (Fcygwin_convert_path_to_windows os h path absolute_p w)))).
      f = (if absolute_p = Qnil then CCP_POSIX_TO_WIN_W OR CCP_RELATIVE
           else CCP_POSIX_TO_WIN_W) \<and>
      (f AND CCP_RELATIVE = CCP_RELATIVE \<longleftrightarrow> absolute_p = Qnil)) \<and>
   (\<forall>f \<in> set (conv_flags (new_events w
            (snd (Fcygwin_convert_path_from_windows os h path absolute_p w)))).
      f = (if absolute_p = Qnil then CCP_WIN_W_TO_POSIX OR CCP_RELATIVE
           else CCP_WIN_W_TO_POSIX) \<and>
      (f AND CCP_RELATIVE = CCP_RELATIVE \<longleftrightarrow> absolute_p = Qnil)) \<and>
   (absolute_p \<noteq> Qnil \<longrightarrow>
      Fcygwin_convert_path_to_windows os h path absolute_p w =
        Fcygwin_convert_path_to_windows os h path Qt w \<and>
      Fcygwin_convert_path_from_windows os h path absolute_p w =
        Fcygwin_convert_path_from_windows os h path Qt w)"
proof (intro conjI ballI impI)
  fix f
  assume "f \<in> set (conv_flags (new_events w
            (snd (Fcygwin_convert_path_to_windows os h path absolute_p w))))"
  then have f: "f = to_flags (if absolute_p = Qnil then 0 else 1)"
    using conv_to_flags[of w os h path "if absolute_p = Qnil then 0 else 1"]
    by (auto simp: snd_to_windows)
  show "f = (if absolute_p = Qnil then CCP_POSIX_TO_WIN_W OR CCP_RELATIVE
           else CCP_POSIX_TO_WIN_W)"
    by (simp add: f to_flags_def)
  show "f AND CCP_RELATIVE = CCP_RELATIVE \<longleftrightarrow> absolute_p = Qnil"
    using relative_bit by (simp add: f to_flags_def)
next
  fix f
  assume "f \<in> set (conv_flags (new_events w
            (snd (Fcygwin_convert_path_from_windows os h path absolute_p w))))"
  then have f: "f = from_flags (if absolute_p = Qnil then 0 else 1)"
    using conv_from_flags[of w os h "fst (to_unicode h path)" "if absolute_p = Qnil then 0 else 1"]
    by (auto simp: Fcygwin_convert_path_from_windows_def)
  show "f = (if absolute_p = Qnil then CCP_WIN_W_TO_POSIX OR CCP_RELATIVE
           else CCP_WIN_W_TO_POSIX)"
    by (simp add: f from_flags_def)
  show "f AND CCP_RELATIVE = CCP_RELATIVE \<longleftrightarrow> absolute_p = Qnil"
    using relative_bit by (simp add: f from_flags_def)
next
  assume "absolute_p \<noteq> Qnil"
  then show "Fcygwin_convert_path_to_windows os h path absolute_p w =
        Fcygwin_convert_path_to_windows os h path Qt w"
    by (simp add: Fcygwin_convert_path_to_windows_def)
next
  assume "absolute_p \<noteq> Qnil"
  then show "Fcygwin_convert_path_from_windows os h path absolute_p w =
        Fcygwin_convert_path_from_windows os h path Qt w"
    by (simp add: Fcygwin_convert_path_from_windows_def)
qed

theorem absolute_flag_iff_non_nil_witness:
  "conv_flags (new_events test_world
     (snd (Fcygwin_convert_path_to_windows (test_os None None None None toy_conv_path)
             (test_host (Str (build_string ''/home/u/''))) (build_string ''ab'') Qnil
             test_world))) = [0x101, 0x101] \<and>
   conv_flags (new_events test_world
     (snd (Fcygwin_convert_path_to_windows (test_os None None None None toy_conv_path)
             (test_host (Str (build_string ''/home/u/''))) (build_string ''ab'') (Fixnum 5)
             test_world))) = [1, 1] \<and>
   conv_flags (new_events test_world
     (snd (Fcygwin_convert_path_from_windows (test_os None None None None toy_conv_path)
             (test_host (Str (build_string ''/home/u/''))) (build_string ''ab'') Qnil
             test_world))) = [0x103, 0x103] \<and>
   conv_flags (new_events test_world
     (snd (Fcygwin_convert_path_from_windows (test_os None None None None toy_conv_path)
             (test_host (Str (build_string ''/home/u/''))) (build_string ''ab'') (Symbol ''yes'')
             test_world))) = [3, 3]"
  using
    absolute_flag_iff_non_nil [of test_world "test_os None None None None toy_conv_path"
      "test_host (Str (build_string ''/home/u/''))" "build_string ''ab''" Qnil]
    absolute_flag_iff_non_nil [of test_world "test_os None None None None toy_conv_path"
      "test_host (Str (build_string ''/home/u/''))" "build_string ''ab''" "Fixnum 5"]
  by (simp add: run_defs)

section \<open>The two-call protocol\<close>

text \<open>
  C3. In a to-native call whose first call to the facility returns less than 2, and in a
  from-native call whose first call to the facility returns less than 1, that call is the
  length query (size 0), the operation raises the error \<open>cygwin_conv_path:\<close> with the
  error text of the operating system, and the facility is not called again.
\<close>

theorem short_length_query_is_fatal:
  "(\<forall>f s z n wr rest.
      conv_calls (new_events w (snd (Fcygwin_convert_path_to_windows os h path absolute_p w))) =
        EvConvPath f s z n wr # rest \<and> n < 2 \<longrightarrow>
      z = 0 \<and> rest = [] \<and>
      (\<exists>e. fst (Fcygwin_convert_path_to_windows os h path absolute_p w) =
             Inl (Error (''cygwin_conv_path: '' @ e)))) \<and>
   (\<forall>f s z n wr rest.
      conv_calls (new_events w (snd (Fcygwin_convert_path_from_windows os h path absolute_p w))) =
        EvConvPath f s z n wr # rest \<and> n < 1 \<longrightarrow>
      z = 0 \<and> rest = [] \<and>
      (\<exists>e. fst (Fcygwin_convert_path_from_windows os h path absolute_p w) =
             Inl (Error (''cygwin_conv_path: '' @ e))))"
proof (intro conjI)
  obtain r w' where run:
    "conv_filename_to_w32_unicode os h path (if absolute_p = Qnil then 0 else 1) w = (r, w')"
    by fastforce
  note entry = to_windows_unfold[OF run]
  from run show "\<forall>f s z n wr rest.
      conv_calls (new_events w (snd (Fcygwin_convert_path_to_windows os h path absolute_p w))) =
        EvConvPath f s z n wr # rest \<and> n < 2 \<longrightarrow>
      z = 0 \<and> rest = [] \<and>
      (\<exists>e. fst (Fcygwin_convert_path_to_windows os h path absolute_p w) =
             Inl (Error (''cygwin_conv_path: '' @ e)))"
    by (cases rule: conv_to_cases) (simp_all add: entry conv_calls_def)
next
  obtain r w' where run:
    "conv_filename_from_w32_unicode os h (fst (to_unicode h path))
       (if absolute_p = Qnil then 0 else 1) w = (r, w')"
    by fastforce
  then have entry: "Fcygwin_convert_path_from_windows os h path absolute_p w = (r, w')"
    by (simp add: Fcygwin_convert_path_from_windows_def)
  from run show "\<forall>f s z n wr rest.
      conv_calls (new_events w (snd (Fcygwin_convert_path_from_windows os h path absolute_p w))) =
        EvConvPath f s z n wr # rest \<and> n < 1 \<longrightarrow>
      z = 0 \<and> rest = [] \<and>
      (\<exists>e. fst (Fcygwin_convert_path_from_windows os h path absolute_p w) =
             Inl (Error (''cygwin_conv_path: '' @ e)))"
    by (cases rule: conv_from_cases) (simp_all add: entry conv_calls_def)
qed

theorem short_length_query_is_fatal_witness:
  "conv_calls (new_events test_world
     (snd (Fcygwin_convert_path_to_windows
             (test_os None None None None (\<lambda>w f s z. (1, [], ''Invalid argument'')))
             (test_host Qnil) (build_string ''ab'') Qnil test_world))) =
     [EvConvPath 0x101 [CHR ''a'', CHR ''b'', CHR 0x00] 0 1 []] \<and>
   (\<exists>e. fst (Fcygwin_convert_path_to_windows
          (test_os None None None None (\<lambda>w f s z. (1, [], ''Invalid argument'')))
          (test_host Qnil) (build_string ''ab'') Qnil test_world) =
     Inl (Error (''cygwin_conv_path: '' @ e))) \<and>
   conv_calls (new_events test_world
     (snd (Fcygwin_convert_path_from_windows
             (test_os None None None None (\<lambda>w f s z. (0, [], ''Invalid argument'')))
             (test_host Qnil) (build_string ''ab'') Qnil test_world))) =
     [EvConvPath 0x103 [CHR ''a'', CHR 0x00, CHR ''b'', CHR 0x00, CHR 0x00, CHR 0x00] 0 0 []] \<and>
   (\<exists>e. fst (Fcygwin_convert_path_from_windows
          (test_os None None None None (\<lambda>w f s z. (0, [], ''Invalid argument'')))
          (test_host Qnil) (build_string ''ab'') Qnil test_world) =
     Inl (Error (''cygwin_conv_path: '' @ e)))"
proof -
  let ?os1 = "test_os None None None None (\<lambda>w f s z. (1, [], ''Invalid argument''))"
  let ?os0 = "test_os None None None None (\<lambda>w f s z. (0, [], ''Invalid argument''))"
  have to_calls: "conv_calls (new_events test_world
     (snd (Fcygwin_convert_path_to_windows ?os1 (test_host Qnil) (build_string ''ab'') Qnil
             test_world))) =
     EvConvPath 0x101 [CHR ''a'', CHR ''b'', CHR 0x00] 0 1 [] # []"
    by (simp add: run_defs)
  have from_calls: "conv_calls (new_events test_world
     (snd (Fcygwin_convert_path_from_windows ?os0 (test_host Qnil) (build_string ''ab'') Qnil
             test_world))) =
     EvConvPath 0x103 [CHR ''a'', CHR 0x00, CHR ''b'', CHR 0x00, CHR 0x00, CHR 0x00] 0 0 [] # []"
    by (simp add: run_defs)
  have small: "(1::int) < 2" "(0::int) < 1" by simp_all
  have "\<exists>e. fst (Fcygwin_convert_path_to_windows ?os1 (test_host Qnil) (build_string ''ab'') Qnil
                   test_world) = Inl (Error (''cygwin_conv_path: '' @ e))"
    using short_length_query_is_fatal [of test_world ?os1 "test_host Qnil" "build_string ''ab''" Qnil]
      to_calls small(1) by blast
  moreover have "\<exists>e. fst (Fcygwin_convert_path_from_windows ?os0 (test_host Qnil)
                   (build_string ''ab'') Qnil test_world) =
                 Inl (Error (''cygwin_conv_path: '' @ e))"
    using short_length_query_is_fatal [of test_world ?os0 "test_host Qnil" "build_string ''ab''" Qnil]
      from_calls small(2) by blast
  ultimately show ?thesis
    using to_calls from_calls by simp
qed

text \<open>
  C6. A conversion call in either direction ends in one of two ways. Either it raises an
  error and returns no string; or both calls to the facility were made, the length query
  returned a valid length, the fill call returned 0, and the string returned is the
  decoding of the whole buffer the facility filled. No other outcome exists, so no
  partly converted string reaches the caller.
\<close>

theorem no_partial_result:
  "((\<exists>e. fst (Fcygwin_convert_path_to_windows os h path absolute_p w) = Inl e) \<or>
    (\<exists>f n wr wr' buf.
       2 \<le> n \<and>
       conv_calls (new_events w
         (snd (Fcygwin_convert_path_to_windows os h path absolute_p w))) =
         [EvConvPath f (SDATA (ENCODE_FILE h path)) 0 n wr,
          EvConvPath f (SDATA (ENCODE_FILE h path)) (nat n) 0 wr'] \<and>
       buf = take (nat (n - 1))
               (fill_buffer (nat n) wr' (SDATA (make_uninit_string h (nat (n - 1))))) \<and>
       fst (Fcygwin_convert_path_to_windows os h path absolute_p w) =
         Inr (Str (code_convert_string_norecord h
                     \<lparr>contents = (if odd (length buf) then butlast buf else buf),
                      multibyte = False\<rparr> Qutf_16_le False)))) \<and>
   ((\<exists>e. fst (Fcygwin_convert_path_from_windows os h path absolute_p w) = Inl e) \<or>
    (\<exists>f n wr wr' buf.
       1 \<le> n \<and>
       conv_calls (new_events w
         (snd (Fcygwin_convert_path_from_windows os h path absolute_p w))) =
         [EvConvPath f (fst (to_unicode h path)) 0 n wr,
          EvConvPath f (fst (to_unicode h path)) (nat n) 0 wr'] \<and>
       buf = take (nat (n - 1))
               (fill_buffer (nat n) wr' (SDATA (make_uninit_string h (nat (n - 1))))) \<and>
       fst (Fcygwin_convert_path_from_windows os h path absolute_p w) =
         Inr (Str (DECODE_FILE h \<lparr>contents = buf, multibyte = False\<rparr>))))"
proof (intro conjI)
  obtain r w' where run:
    "conv_filename_to_w32_unicode os h path (if absolute_p = Qnil then 0 else 1) w = (r, w')"
    by fastforce
  note entry = to_windows_unfold[OF run]
  from run show "(\<exists>e. fst (Fcygwin_convert_path_to_windows os h path absolute_p w) = Inl e) \<or>
    (\<exists>f n wr wr' buf.
       2 \<le> n \<and>
       conv_calls (new_events w
         (snd (Fcygwin_convert_path_to_windows os h path absolute_p w))) =
         [EvConvPath f (SDATA (ENCODE_FILE h path)) 0 n wr,
          EvConvPath f (SDATA (ENCODE_FILE h path)) (nat n) 0 wr'] \<and>
       buf = take (nat (n - 1))
               (fill_buffer (nat n) wr' (SDATA (make_uninit_string h (nat (n - 1))))) \<and>
       fst (Fcygwin_convert_path_to_windows os h path absolute_p w) =
         Inr (Str (code_convert_string_norecord h
                     \<lparr>contents = (if odd (length buf) then butlast buf else buf),
                      multibyte = False\<rparr> Qutf_16_le False)))"
  proof (cases rule: conv_to_cases)
    case (converted fd n wr wr' rcf rcc)
    let ?buf = "take (nat (n - 1))
               (fill_buffer (nat n) wr' (SDATA (make_uninit_string h (nat (n - 1)))))"
    have "fst (Fcygwin_convert_path_to_windows os h path absolute_p w) =
         Inr (Str (code_convert_string_norecord h
                     \<lparr>contents = (if odd (length ?buf) then butlast ?buf else ?buf),
                      multibyte = False\<rparr> Qutf_16_le False))"
      by (simp add: entry converted(4) from_unicode_Str)
    moreover have "conv_calls (new_events w
         (snd (Fcygwin_convert_path_to_windows os h path absolute_p w))) =
         [EvConvPath (to_flags (if absolute_p = Qnil then 0 else 1)) (SDATA (ENCODE_FILE h path)) 0 n wr,
          EvConvPath (to_flags (if absolute_p = Qnil then 0 else 1)) (SDATA (ENCODE_FILE h path)) (nat n) 0 wr']"
      by (simp add: entry converted(5) conv_calls_def)
    ultimately show ?thesis
      using converted(3) by blast
  qed (simp_all add: entry)
next
  obtain r w' where run:
    "conv_filename_from_w32_unicode os h (fst (to_unicode h path))
       (if absolute_p = Qnil then 0 else 1) w = (r, w')"
    by fastforce
  then have entry: "Fcygwin_convert_path_from_windows os h path absolute_p w = (r, w')"
    by (simp add: Fcygwin_convert_path_from_windows_def)
  from run show "(\<exists>e. fst (Fcygwin_convert_path_from_windows os h path absolute_p w) = Inl e) \<or>
    (\<exists>f n wr wr' buf.
       1 \<le> n \<and>
       conv_calls (new_events w
         (snd (Fcygwin_convert_path_from_windows os h path absolute_p w))) =
         [EvConvPath f (fst (to_unicode h path)) 0 n wr,
          EvConvPath f (fst (to_unicode h path)) (nat n) 0 wr'] \<and>
       buf = take (nat (n - 1))
               (fill_buffer (nat n) wr' (SDATA (make_uninit_string h (nat (n - 1))))) \<and>
       fst (Fcygwin_convert_path_from_windows os h path absolute_p w) =
         Inr (Str (DECODE_FILE h \<lparr>contents = buf, multibyte = False\<rparr>)))"
  proof (cases rule: conv_from_cases)
    case (converted fd n wr wr' rcf rcc)
    have "conv_calls (new_events w
         (snd (Fcygwin_convert_path_from_windows os h path absolute_p w))) =
         [EvConvPath (from_flags (if absolute_p = Qnil then 0 else 1)) (fst (to_unicode h path)) 0 n wr,
          EvConvPath (from_flags (if absolute_p = Qnil then 0 else 1)) (fst (to_unicode h path)) (nat n) 0 wr']"
      by (simp add: entry converted(5) conv_calls_def)
    then show ?thesis
      using converted(3,4) entry by auto
  qed (simp_all add: entry)
qed

theorem no_partial_result_witness:
  "fst (Fcygwin_convert_path_to_windows (test_os None None None None toy_conv_path)
          (test_host Qnil) (build_string ''a/b'') Qnil test_world) =
     Inr (Str \<lparr>contents = [CHR ''a'', CHR 0x5C, CHR ''b''], multibyte = False\<rparr>) \<and>
   fst (Fcygwin_convert_path_from_windows (test_os None None None None toy_conv_path)
          (test_host Qnil) (build_string ''a/b'') Qnil test_world) =
     Inr (Str \<lparr>contents = ''a/b'', multibyte = False\<rparr>) \<and>
   fst (Fcygwin_convert_path_to_windows
          (test_os None None None None
             (\<lambda>w f s z. if z = 0 then (8, [], '''') else (- 1, ''a'', ''Invalid argument'')))
          (test_host Qnil) (build_string ''a/b'') Qnil test_world) =
     Inl (Error ''cygwin_conv_path: Invalid argument'')"
  using
    no_partial_result [of "test_os None None None None toy_conv_path" "test_host Qnil"
      "build_string ''a/b''" Qnil test_world]
    no_partial_result [of "test_os None None None None
             (\<lambda>w f s z. if z = 0 then (8, [], '''') else (- 1, ''a'', ''Invalid argument''))"
      "test_host Qnil" "build_string ''a/b''" Qnil test_world]
  by (simp add: run_defs)

section \<open>Restoring the working directory\<close>

text \<open>
  C2, as stated, fails: the cleanup ignores the result of \<open>fchdir\<close>, so when that call
  fails the process stays in the default directory. Here a to-native call made in \<open>/\<close>
  ends in \<open>/home/u/\<close>.
\<close>

theorem working_directory_restored_counterexample:
  "cwd test_world = ''/'' \<and>
   cwd (snd (Fcygwin_convert_path_to_windows
               (test_os None None (Some ''Permission denied'') None toy_conv_path)
               (test_host (Str (build_string ''/home/u/''))) (build_string ''a/b'') Qnil
               test_world)) = ''/home/u/'' \<and>
   cwd (snd (Fcygwin_convert_path_to_windows
               (test_os None None (Some ''Permission denied'') None toy_conv_path)
               (test_host (Str (build_string ''/home/u/''))) (build_string ''a/b'') Qnil
               test_world)) \<noteq> cwd test_world"
  by (simp add: run_defs)

text \<open>
  C2, amended. After a conversion call in either direction has returned, with a result
  or with an error, nothing the call registered is left on the unwind stack, the saved
  handle is closed, and at no point of the call was more than one saved handle
  outstanding. The working directory is the one at the start of the call whenever no
  \<open>fchdir\<close> of the cleanup failed.
\<close>

theorem guard_released_after_call:
  "guard_released w (snd (Fcygwin_convert_path_to_windows os h path absolute_p w)) \<and>
   guard_released w (snd (Fcygwin_convert_path_from_windows os h path absolute_p w))"
  by (simp add: snd_to_windows Fcygwin_convert_path_from_windows_def conv_to_released
        conv_from_released)

theorem guard_released_after_call_witness:
  "new_events test_world
     (snd (Fcygwin_convert_path_to_windows (test_os None None None None toy_conv_path)
             (test_host (Str (build_string ''/home/u/''))) (build_string ''a/b'') Qnil
             test_world)) =
     [EvOpen 3, EvChdir ''/home/u/'' 0,
      EvConvPath 0x101 [CHR ''a'', CHR ''/'', CHR ''b'', CHR 0x00] 0 8 [],
      EvConvPath 0x101 [CHR ''a'', CHR ''/'', CHR ''b'', CHR 0x00] 8 0
        [CHR ''a'', CHR 0x00, CHR 0x5C, CHR 0x00, CHR ''b'', CHR 0x00, CHR 0x00, CHR 0x00],
      EvFchdir 3 0, EvClose 3 0] \<and>
   cwd (snd (Fcygwin_convert_path_to_windows (test_os None None None None toy_conv_path)
               (test_host (Str (build_string ''/home/u/''))) (build_string ''a/b'') Qnil
               test_world)) = cwd test_world"
proof -
  let ?w' = "snd (Fcygwin_convert_path_to_windows (test_os None None None None toy_conv_path)
               (test_host (Str (build_string ''/home/u/''))) (build_string ''a/b'') Qnil
               test_world)"
  have events: "new_events test_world ?w' =
     [EvOpen 3, EvChdir ''/home/u/'' 0,
      EvConvPath 0x101 [CHR ''a'', CHR ''/'', CHR ''b'', CHR 0x00] 0 8 [],
      EvConvPath 0x101 [CHR ''a'', CHR ''/'', CHR ''b'', CHR 0x00] 8 0
        [CHR ''a'', CHR 0x00, CHR 0x5C, CHR 0x00, CHR ''b'', CHR 0x00, CHR 0x00, CHR 0x00],
      EvFchdir 3 0, EvClose 3 0]"
    by (simp add: run_defs)
  then have ok: "\<forall>ev \<in> set (new_events test_world ?w'). \<not> restore_failed ev"
    by simp
  have "guard_released test_world ?w'"
    using guard_released_after_call [of test_world "test_os None None None None toy_conv_path"
      "test_host (Str (build_string ''/home/u/''))" "build_string ''a/b''" Qnil]
    by simp
  with ok have "cwd ?w' = cwd test_world"
    by (simp add: guard_released_def)
  with events show ?thesis by simp
qed

section \<open>There and back\<close>

text \<open>
  C1. Take a path \<open>p\<close> converted with \<open>absolute-p\<close> nil under a fixed default directory:
  \<open>open\<close> succeeds and the guard's \<open>chdir\<close> puts the process in the directory \<open>D\<close>. Let
  the facility follow its two-call protocol while the process is in \<open>D\<close>, and be
  anything at all while it is elsewhere: in \<open>D\<close>, asked for \<open>p\<close> it answers the wide
  string \<open>W\<close>, and asked for \<open>W\<close> it answers \<open>P\<close>. Let the UTF-16LE transcoder take \<open>W\<close>
  to \<open>win\<close> and \<open>win\<close> back to \<open>W\<close>, and let the file-name decoder take \<open>P\<close> to \<open>p\<close>: what
  the facility and the coders give back for this path, whatever normalisation they do
  on the way, is \<open>p\<close>. Then, from any starting world, converting \<open>p\<close> to native form
  yields \<open>win\<close>, and converting \<open>win\<close> back yields \<open>p\<close>.
\<close>

theorem round_trip:
  assumes opens: "\<forall>w. open_err os w = None"
    and chdirs: "\<forall>w. chdir_res os w (guard_dir h) = Inr D"
    and to_query:
      "\<forall>w. cwd w = D \<longrightarrow>
         fst (conv_path os w (CCP_POSIX_TO_WIN_W OR CCP_RELATIVE)
                (SDATA (ENCODE_FILE h p)) 0) = int (length (W @ [NUL, NUL]))"
    and to_fill:
      "\<forall>w. cwd w = D \<longrightarrow>
         (\<exists>e. conv_path os w (CCP_POSIX_TO_WIN_W OR CCP_RELATIVE)
                 (SDATA (ENCODE_FILE h p)) (length (W @ [NUL, NUL])) =
               (0, W @ [NUL, NUL], e))"
    and wide: "even (length W)"
    and decode: "code_convert_string_norecord h \<lparr>contents = W, multibyte = False\<rparr>
                   Qutf_16_le False = win"
    and encode: "contents (code_convert_string_norecord h win Qutf_16_le True) = W"
    and from_query:
      "\<forall>w. cwd w = D \<longrightarrow>
         fst (conv_path os w (CCP_WIN_W_TO_POSIX OR CCP_RELATIVE)
                (W @ [NUL, NUL]) 0) = int (length (P @ [NUL]))"
    and from_fill:
      "\<forall>w. cwd w = D \<longrightarrow>
         (\<exists>e. conv_path os w (CCP_WIN_W_TO_POSIX OR CCP_RELATIVE)
                 (W @ [NUL, NUL]) (length (P @ [NUL])) = (0, P @ [NUL], e))"
    and posix: "DECODE_FILE h \<lparr>contents = P, multibyte = False\<rparr> = p"
  shows
    "fst (Fcygwin_convert_path_to_windows os h p Qnil w) = Inr (Str win) \<and>
     fst (Fcygwin_convert_path_from_windows os h win Qnil
            (snd (Fcygwin_convert_path_to_windows os h p Qnil w))) = Inr (Str p)"
proof
  have "fst (conv_filename_to_w32_unicode os h p 0 w) =
          Inr (Str \<lparr>contents = butlast (W @ [NUL, NUL]), multibyte = False\<rparr>)"
    using opens chdirs to_query to_fill
    by (intro conv_to_success[where D = D]) (simp_all add: to_flags_def)
  then have "fst (conv_filename_to_w32_unicode os h p 0 w) =
          Inr (Str \<lparr>contents = W @ [NUL], multibyte = False\<rparr>)"
    by (simp add: butlast_append)
  then have "fst (Fcygwin_convert_path_to_windows os h p Qnil w) =
          from_unicode h (Str \<lparr>contents = W @ [NUL], multibyte = False\<rparr>)"
    by (cases "conv_filename_to_w32_unicode os h p 0 w")
       (auto simp: Fcygwin_convert_path_to_windows_def)
  also have "\<dots> = Inr (Str win)"
    using wide decode by (simp add: from_unicode_Str)
  finally show "fst (Fcygwin_convert_path_to_windows os h p Qnil w) = Inr (Str win)" .
next
  let ?w1 = "snd (Fcygwin_convert_path_to_windows os h p Qnil w)"
  have wide_form: "fst (to_unicode h win) = W @ [NUL, NUL]"
    using encode by (simp add: to_unicode_def Let_def WCSDATA_def SDATA_def SBYTES_def
        memcpy_terminate nat_add_distrib)
  have "fst (conv_filename_from_w32_unicode os h (W @ [NUL, NUL]) 0 ?w1) =
          Inr (Str (DECODE_FILE h \<lparr>contents = butlast (P @ [NUL]), multibyte = False\<rparr>))"
    using opens chdirs from_query from_fill
    by (intro conv_from_success[where D = D]) (simp_all add: from_flags_def)
  then show "fst (Fcygwin_convert_path_from_windows os h win Qnil ?w1) = Inr (Str p)"
    using posix by (simp add: Fcygwin_convert_path_from_windows_def wide_form)
qed

theorem round_trip_witness:
  "cwd test_world = ''/'' \<and>
   fst (conv_path (test_os None None None None (cwd_conv_path ''/home/u/'')) test_world
          (CCP_POSIX_TO_WIN_W OR CCP_RELATIVE) (SDATA (build_string ''a/b'')) 0) = - 1 \<and>
   fst (Fcygwin_convert_path_to_windows
          (test_os None None None None (cwd_conv_path ''/home/u/''))
          (test_host (Str (build_string ''/home/u/''))) (build_string ''a/b'') Qnil
          test_world) =
     Inr (Str \<lparr>contents = [CHR ''a'', CHR 0x5C, CHR ''b''], multibyte = False\<rparr>) \<and>
   fst (Fcygwin_convert_path_from_windows
          (test_os None None None None (cwd_conv_path ''/home/u/''))
          (test_host (Str (build_string ''/home/u/'')))
          \<lparr>contents = [CHR ''a'', CHR 0x5C, CHR ''b''], multibyte = False\<rparr> Qnil
          (snd (Fcygwin_convert_path_to_windows
                  (test_os None None None None (cwd_conv_path ''/home/u/''))
                  (test_host (Str (build_string ''/home/u/''))) (build_string ''a/b'') Qnil
                  test_world))) =
     Inr (Str (build_string ''a/b''))"
proof -
  have elsewhere: "cwd test_world = ''/''"
    "fst (conv_path (test_os None None None None (cwd_conv_path ''/home/u/'')) test_world
            (CCP_POSIX_TO_WIN_W OR CCP_RELATIVE) (SDATA (build_string ''a/b'')) 0) = - 1"
    by (simp_all add: run_defs)
  have there_and_back:
    "fst (Fcygwin_convert_path_to_windows
          (test_os None None None None (cwd_conv_path ''/home/u/''))
          (test_host (Str (build_string ''/home/u/''))) (build_string ''a/b'') Qnil
          test_world) =
     Inr (Str \<lparr>contents = [CHR ''a'', CHR 0x5C, CHR ''b''], multibyte = False\<rparr>) \<and>
     fst (Fcygwin_convert_path_from_windows
          (test_os None None None None (cwd_conv_path ''/home/u/''))
          (test_host (Str (build_string ''/home/u/'')))
          \<lparr>contents = [CHR ''a'', CHR 0x5C, CHR ''b''], multibyte = False\<rparr> Qnil
          (snd (Fcygwin_convert_path_to_windows
                  (test_os None None None None (cwd_conv_path ''/home/u/''))
                  (test_host (Str (build_string ''/home/u/''))) (build_string ''a/b'') Qnil
                  test_world))) =
     Inr (Str (build_string ''a/b''))"
    by (rule round_trip
          [where D = "''/home/u/''"
             and W = "[CHR ''a'', CHR 0x00, CHR 0x5C, CHR 0x00, CHR ''b'', CHR 0x00]"
             and P = "''a/b''"])
       (simp_all add: run_defs)
  with elsewhere show ?thesis by simp
qed

end
